theory Spec2Isabelle
  imports Main "HOL-Library.Word" "HOL-Library.Sublist"
begin

section \<open>Data model of the property graph\<close>

text \<open>
  The packages \<^verbatim>\<open>topology/graph\<close>, \<^verbatim>\<open>filters\<close>, \<^verbatim>\<open>common\<close> and \<^verbatim>\<open>api\<close> are not
  among the sources. Of what the traversal engine, the TID mapper and the on-demand client
  use of them, the data is modelled from the specification (sections 3 and 4), each
  definition saying so, and the functions are parameters of the model. A 64-bit integer
  is an integer here: the sources do no arithmetic on them that could overflow.
\<close>

type_synonym Identifier = string

text \<open>
  Modelled from the spec: a metadata value is a scalar or a structured value (strings,
  integers, floats, booleans, nested mappings). A float is kept as its 64 bits.
\<close>

datatype mvalue =
    VString string
  | VInt64 int
  | VBool bool
  | VFloat64 "64 word"
  | VMap "(string \<times> mvalue) list"

text \<open>
  Modelled from the spec: nodes and edges share an identifier, a host label and a metadata
  mapping (Go embeds one \<^verbatim>\<open>graphElement\<close> in both); an edge adds the identifiers of its
  parent and child nodes. The mapping is an association list, read at the first entry of
  a key.
\<close>

record graphElement =
  ID :: Identifier
  host :: string
  metadata :: "(string \<times> mvalue) list"

type_synonym Node = graphElement

record Edge = graphElement +
  parent :: Identifier
  child :: Identifier

text \<open>Modelled from the spec: a graph is a set of nodes and a set of edges, each kept
  here as the list in which the graph enumerates them.\<close>

record Graph =
  g_nodes :: "Node list"
  g_edges :: "Edge list"

section \<open>Go values: step arguments, errors, panics\<close>

text \<open>
  A compiled regular expression of Go's \<^verbatim>\<open>regexp\<close> package, kept as the expression it
  was compiled from. \<^verbatim>\<open>regexp.Compile\<close> itself is a parameter of the model: it returns
  either an error (and a nil pattern) or a compiled pattern.
\<close>

datatype Regexp = Regexp string

record RegexMetadataMatcher =
  regexp :: "Regexp option"
  pattern :: string

text \<open>
  The dynamic values a step receives in its \<^verbatim>\<open>...interface{}\<close> arguments: scalars,
  a time or a duration (for \<^verbatim>\<open>Context\<close>), and the metadata matchers of the source.
\<close>

datatype param =
    PNil
  | PString string
  | PInt64 int
  | PInt int
  | PFloat64 "64 word"
  | PBool bool
  | PTime int
  | PDuration int
  | PRegex RegexMetadataMatcher
  | PNe param
  | PLt param
  | PGt param
  | PLte param
  | PGte param
  | PInside param param
  | POutside param param
  | PBetween param param
  | PWithin "param list"
  | PWithout "param list"
  | PSince int

text \<open>Go's \<^verbatim>\<open>error\<close> values: \<^verbatim>\<open>errors.New\<close> with its text, \<^verbatim>\<open>fmt.Errorf\<close> with its
  format and its arguments, not rendered.\<close>

datatype error = ErrorNew string | Errorf string "param list"

text \<open>The text of an error made by \<^verbatim>\<open>errors.New\<close>.\<close>

fun error_text :: "error \<Rightarrow> string option" where
  "error_text (ErrorNew s) = Some s"
| "error_text (Errorf f args) = None"

text \<open>Run-time panics of Go that the modelled code can reach.\<close>

datatype go_panic = IndexOutOfRange | TypeAssertion | NilDereference | UnhashableKey

text \<open>How a loop body ends: the loop goes on, or it is left (by \<^verbatim>\<open>break\<close> of a labelled
  loop or by \<^verbatim>\<open>return\<close>).\<close>

datatype 'a flow = Continue 'a | Return 'a

section \<open>Reading the fields of a node or an edge\<close>

text \<open>Modelled from the spec: \<^verbatim>\<open>Metadata()[k]\<close> and \<^verbatim>\<open>GetField(k)\<close> read the metadata
  mapping at a key.\<close>

definition GetField :: "'a graphElement_scheme \<Rightarrow> string \<Rightarrow> mvalue option" where
  "GetField e k = map_of (metadata e) k"

text \<open>Modelled from the spec: \<^verbatim>\<open>GetFieldString\<close> fails when the key is missing or its
  value is not a string.\<close>

definition GetFieldString :: "'a graphElement_scheme \<Rightarrow> string \<Rightarrow> error + string" where
  "GetFieldString e k =
     (case GetField e k of
        None \<Rightarrow> Inl (ErrorNew ''Field not found'')
      | Some (VString s) \<Rightarrow> Inr s
      | Some _ \<Rightarrow> Inl (ErrorNew ''Field has wrong type''))"

text \<open>Go's \<^verbatim>\<open>s, _ := n.GetFieldString(k)\<close>: the string, or the empty string on error.\<close>

definition GetFieldString0 :: "'a graphElement_scheme \<Rightarrow> string \<Rightarrow> string" where
  "GetFieldString0 e k = (case GetFieldString e k of Inl _ \<Rightarrow> [] | Inr s \<Rightarrow> s)"

section \<open>Traversal steps and their values\<close>

text \<open>\<^verbatim>\<open>GraphTraversalRange [2]int64\<close> and the per-query step context.\<close>

type_synonym GraphTraversalRange = "int \<times> int"

record GraphStepContext =
  PaginationRange :: "GraphTraversalRange option"

text \<open>
  The five step types of \<^verbatim>\<open>traversal.go\<close>. All carry the field \<^verbatim>\<open>error\<close> (\<open>None\<close> is
  Go's nil); the four that follow \<^verbatim>\<open>GraphTraversal\<close> carry a pointer to it, nil in the
  steps the source builds as \<^verbatim>\<open>&GraphTraversalV{error: err}\<close>. A nil slice and an empty
  slice are both the empty list.
\<close>

record hasError =
  error :: "error option"

record GraphTraversal = hasError +
  Graph :: "Graph option"
  currentStepContext :: GraphStepContext

record stepFields = hasError +
  GraphTraversal :: "GraphTraversal option"

record GraphTraversalV = stepFields +
  nodes :: "Node list"

record GraphTraversalE = stepFields +
  edges :: "Edge list"

record GraphTraversalShortestPath = stepFields +
  paths :: "Node list list"

text \<open>The elements of the \<^verbatim>\<open>[]interface{}\<close> that \<^verbatim>\<open>Values()\<close> returns, and the
  \<^verbatim>\<open>interface{}\<close> a value step holds.\<close>

datatype gvalue =
    GNil
  | GGraph "Graph option"
  | GNode Node
  | GEdge Edge
  | GPath "Node list"
  | GInt int
  | GMeta mvalue
  | GSlice "gvalue list"

record GraphTraversalValue = stepFields +
  valueV :: gvalue

definition G_Values :: "GraphTraversal \<Rightarrow> gvalue list" where
  "G_Values t = [GGraph (Graph t)]"

definition V_Values :: "GraphTraversalV \<Rightarrow> gvalue list" where
  "V_Values tv = map GNode (nodes tv)"

definition E_Values :: "GraphTraversalE \<Rightarrow> gvalue list" where
  "E_Values te = map GEdge (edges te)"

definition SP_Values :: "GraphTraversalShortestPath \<Rightarrow> gvalue list" where
  "SP_Values sp = map GPath (paths sp)"

text \<open>\<^verbatim>\<open>GraphTraversalValue.Values\<close>: the value itself when it is a \<^verbatim>\<open>[]interface{}\<close>,
  otherwise a new array with the value as its only element.\<close>

definition Value_Values :: "GraphTraversalValue \<Rightarrow> gvalue list" where
  "Value_Values t = (case valueV t of GSlice v \<Rightarrow> v | v \<Rightarrow> [v])"

text \<open>The interface \<^verbatim>\<open>GraphTraversalStep\<close> with its methods \<^verbatim>\<open>Values\<close> and
  \<^verbatim>\<open>Error\<close>.\<close>

datatype GraphTraversalStep =
    StepG GraphTraversal
  | StepV GraphTraversalV
  | StepE GraphTraversalE
  | StepSP GraphTraversalShortestPath
  | StepValue GraphTraversalValue

fun Values :: "GraphTraversalStep \<Rightarrow> gvalue list" where
  "Values (StepG t) = G_Values t"
| "Values (StepV tv) = V_Values tv"
| "Values (StepE te) = E_Values te"
| "Values (StepSP sp) = SP_Values sp"
| "Values (StepValue t) = Value_Values t"

fun Error :: "GraphTraversalStep \<Rightarrow> error option" where
  "Error (StepG t) = error t"
| "Error (StepV tv) = error tv"
| "Error (StepE te) = error te"
| "Error (StepSP sp) = error sp"
| "Error (StepValue t) = error t"

section \<open>Collaborators outside the sources\<close>

text \<open>
  Modelled from the spec: the metadata predicates of section 4.B as the filters that
  \<^verbatim>\<open>ParamToFilter\<close> builds, named after the constructors of the package \<^verbatim>\<open>filters\<close>
  that the source calls. How a filter is evaluated is a parameter.
\<close>

datatype Filter =
    TermStringFilter string string
  | TermInt64Filter string int
  | LtInt64Filter string int
  | GtInt64Filter string int
  | LteInt64Filter string int
  | GteInt64Filter string int
  | RegexFilter string string
  | NotFilter Filter
  | AndFilter "Filter list"
  | OrFilter "Filter list"

text \<open>Modelled from the spec: \<^verbatim>\<open>graph.Metadata\<close> used as a filter, a mapping from keys
  to plain values or to \<^verbatim>\<open>*filters.Filter\<close>. Go's nil mapping and the empty mapping are
  both \<open>[]\<close>.\<close>

datatype mfilter = MValue mvalue | MFilter Filter

type_synonym Metadata = "(string \<times> mfilter) list"

text \<open>
  Everything the modelled code calls and the sources do not hold is a field of this
  record, so every theorem holds for whatever these functions compute: the lookups of
  the graph, \<^verbatim>\<open>filters.Filter.Eval\<close>, \<^verbatim>\<open>Edge.MatchMetadata\<close>, \<^verbatim>\<open>common.ToInt64\<close> and
  \<^verbatim>\<open>common.ToFloat64\<close>, float addition, \<^verbatim>\<open>hashstructure.Hash\<close> (its two results),
  \<^verbatim>\<open>regexp.Compile\<close>, \<^verbatim>\<open>uuid.NewV5\<close> followed by \<^verbatim>\<open>String()\<close>, and the reading of
  \<^verbatim>\<open>time.Now().UTC()\<close> in nanoseconds since the epoch.
\<close>

record Externals =
  GetNode :: "Graph \<Rightarrow> Identifier \<Rightarrow> Node option"
  GetNodes :: "Graph \<Rightarrow> Metadata \<Rightarrow> Node list"
  GetNodeEdges :: "Graph \<Rightarrow> Node \<Rightarrow> Metadata \<Rightarrow> Edge list"
  GetEdgeNodes :: "Graph \<Rightarrow> Edge \<Rightarrow> Metadata \<Rightarrow> Metadata \<Rightarrow> Node list \<times> Node list"
  LookupChildren :: "Graph \<Rightarrow> Node \<Rightarrow> Metadata \<Rightarrow> Metadata \<Rightarrow> Node list"
  LookupParents :: "Graph \<Rightarrow> Node \<Rightarrow> Metadata \<Rightarrow> Metadata \<Rightarrow> Node list"
  LookupShortestPath :: "Graph \<Rightarrow> Node \<Rightarrow> Metadata \<Rightarrow> Metadata \<Rightarrow> Node list"
  WithContext :: "Graph \<Rightarrow> int \<times> int \<Rightarrow> error + Graph"
  Eval :: "Filter \<Rightarrow> Node \<Rightarrow> bool"
  MatchMetadata :: "Edge \<Rightarrow> Metadata \<Rightarrow> bool"
  ToInt64 :: "param \<Rightarrow> error + int"
  ToFloat64 :: "int \<Rightarrow> error + 64 word"
  FloatAdd :: "64 word \<Rightarrow> 64 word \<Rightarrow> 64 word"
  Hash :: "mvalue list \<Rightarrow> 64 word \<times> error option"
  Compile :: "string \<Rightarrow> error + Regexp"
  NewV5 :: "string \<Rightarrow> string \<Rightarrow> string"
  Now :: int

text \<open>Modelled from the spec: \<^verbatim>\<open>GetFieldInt64\<close> reads an integer field.\<close>

definition GetFieldInt64 :: "'a graphElement_scheme \<Rightarrow> string \<Rightarrow> error + int" where
  "GetFieldInt64 e k =
     (case GetField e k of
        None \<Rightarrow> Inl (ErrorNew ''Field not found'')
      | Some (VInt64 i) \<Rightarrow> Inr i
      | Some _ \<Rightarrow> Inl (ErrorNew ''Field has wrong type''))"

subsection \<open>The pagination iterator\<close>

text \<open>
  Modelled from the spec: \<^verbatim>\<open>common.Iterator\<close> is not among the sources. Each element
  passes through an iterator that counts and admits the elements whose running index is in
  \<open>[from, to)\<close>: \<open>Next\<close> counts one element and tells whether it is admitted, \<open>Done\<close> tells
  that the count has reached \<open>to\<close>. Without bounds (\<^verbatim>\<open>NewIterator()\<close>) every element is
  admitted and the iterator is never done.
\<close>

record Iterator =
  it_at :: int
  it_from :: int
  it_to :: "int option"

text \<open>Modelled from the spec: \<^verbatim>\<open>NewIterator()\<close>, without bounds.\<close>

definition NewIterator0 :: Iterator where
  "NewIterator0 = \<lparr>it_at = 0, it_from = 0, it_to = None\<rparr>"

text \<open>Modelled from the spec: \<^verbatim>\<open>NewIterator(at, from, to)\<close>.\<close>

definition NewIterator3 :: "int \<Rightarrow> int \<Rightarrow> int \<Rightarrow> Iterator" where
  "NewIterator3 a f t = \<lparr>it_at = a, it_from = f, it_to = Some t\<rparr>"

text \<open>Modelled from the spec: the iterator is exhausted when the count has reached
  \<open>to\<close>.\<close>

definition Done :: "Iterator \<Rightarrow> bool" where
  "Done it = (case it_to it of None \<Rightarrow> False | Some t \<Rightarrow> it_at it \<ge> t)"

text \<open>Modelled from the spec: \<^verbatim>\<open>Next\<close> tells whether the element at the current count is
  admitted, and counts it.\<close>

definition Next :: "Iterator \<Rightarrow> bool \<times> Iterator" where
  "Next it = (it_from it \<le> it_at it, it\<lparr>it_at := it_at it + 1\<rparr>)"

text \<open>\<^verbatim>\<open>(r *GraphTraversalRange).Iterator()\<close>\<close>

definition IteratorOf :: "GraphTraversalRange option \<Rightarrow> Iterator" where
  "IteratorOf r = (case r of Some (f, t) \<Rightarrow> NewIterator3 0 f t | None \<Rightarrow> NewIterator0)"

subsection \<open>From step arguments to filters\<close>

text \<open>\<^verbatim>\<open>Regex\<close>: the error of \<^verbatim>\<open>regexp.Compile\<close> is dropped.\<close>

definition Regex :: "Externals \<Rightarrow> string \<Rightarrow> RegexMetadataMatcher" where
  "Regex X expr =
     (let r = (case Compile X expr of Inl err \<Rightarrow> None | Inr re \<Rightarrow> Some re)
      in \<lparr>regexp = r, pattern = expr\<rparr>)"

text \<open>The loop of \<^verbatim>\<open>ParamToFilter\<close> over the list of a \<^verbatim>\<open>Within\<close> matcher.\<close>

fun Within_filters :: "Externals \<Rightarrow> string \<Rightarrow> param list \<Rightarrow> error + Filter list" where
  "Within_filters X k [] = Inr []"
| "Within_filters X k (val # rest) =
     (case (case val of
              PString v \<Rightarrow> Inr (TermStringFilter k v)
            | v \<Rightarrow> (case ToInt64 X v of Inl err \<Rightarrow> Inl err | Inr i \<Rightarrow> Inr (TermInt64Filter k i))) of
        Inl err \<Rightarrow> Inl err
      | Inr f \<Rightarrow> (case Within_filters X k rest of Inl err \<Rightarrow> Inl err | Inr fs \<Rightarrow> Inr (f # fs)))"

text \<open>The matchers with two bounds: both are converted, then either failure is reported
  with the matcher's own message.\<close>

definition bounds64 :: "Externals \<Rightarrow> param \<Rightarrow> param \<Rightarrow> string \<Rightarrow> error + int \<times> int" where
  "bounds64 X from to msg =
     (case (ToInt64 X from, ToInt64 X to) of
        (Inr f64, Inr t64) \<Rightarrow> Inr (f64, t64)
      | _ \<Rightarrow> Inl (ErrorNew msg))"

definition ParamToFilter :: "Externals \<Rightarrow> string \<Rightarrow> param \<Rightarrow> error + Filter" where
  "ParamToFilter X k v =
     (case v of
        PRegex m \<Rightarrow> Inr (RegexFilter k (pattern m))
      | PNe t \<Rightarrow>
          (case t of
             PString str \<Rightarrow> Inr (NotFilter (TermStringFilter k str))
           | _ \<Rightarrow> (case ToInt64 X t of
                     Inl err \<Rightarrow> Inl err
                   | Inr i \<Rightarrow> Inr (NotFilter (TermInt64Filter k i))))
      | PLt t \<Rightarrow>
          (case ToInt64 X t of
             Inl err \<Rightarrow> Inl (ErrorNew ''LT values should be of int64 type'')
           | Inr i \<Rightarrow> Inr (LtInt64Filter k i))
      | PGt t \<Rightarrow>
          (case ToInt64 X t of
             Inl err \<Rightarrow> Inl (ErrorNew ''GT values should be of int64 type'')
           | Inr i \<Rightarrow> Inr (GtInt64Filter k i))
      | PGte t \<Rightarrow>
          (case ToInt64 X t of
             Inl err \<Rightarrow> Inl (ErrorNew ''GTE values should be of int64 type'')
           | Inr i \<Rightarrow> Inr (GteInt64Filter k i))
      | PLte t \<Rightarrow>
          (case ToInt64 X t of
             Inl err \<Rightarrow> Inl (ErrorNew ''LTE values should be of int64 type'')
           | Inr i \<Rightarrow> Inr (LteInt64Filter k i))
      | PInside from to \<Rightarrow>
          (case bounds64 X from to ''Inside values should be of int64 type'' of
             Inl err \<Rightarrow> Inl err
           | Inr (f64, t64) \<Rightarrow> Inr (AndFilter [GtInt64Filter k f64, LtInt64Filter k t64]))
      | POutside from to \<Rightarrow>
          (case bounds64 X from to ''Outside values should be of int64 type'' of
             Inl err \<Rightarrow> Inl err
           | Inr (f64, t64) \<Rightarrow> Inr (AndFilter [LtInt64Filter k f64, GtInt64Filter k t64]))
      | PBetween from to \<Rightarrow>
          (case bounds64 X from to ''Between values should be of int64 type'' of
             Inl err \<Rightarrow> Inl err
           | Inr (f64, t64) \<Rightarrow> Inr (AndFilter [GteInt64Filter k f64, LtInt64Filter k t64]))
      | PWithin lst \<Rightarrow>
          (case Within_filters X k lst of
             Inl err \<Rightarrow> Inl err
           | Inr orFilters \<Rightarrow> Inr (OrFilter orFilters))
      | PString str \<Rightarrow> Inr (TermStringFilter k str)
      | PInt64 i \<Rightarrow> Inr (TermInt64Filter k i)
      | _ \<Rightarrow> (case ToInt64 X v of Inl err \<Rightarrow> Inl err | Inr i \<Rightarrow> Inr (TermInt64Filter k i)))"

text \<open>The loop of \<^verbatim>\<open>ParamsToFilter\<close> over the pairs; the caller has checked that the
  number of arguments is even.\<close>

fun ParamsToFilter_loop :: "Externals \<Rightarrow> param list \<Rightarrow> error + Filter list" where
  "ParamsToFilter_loop X (pk # pv # rest) =
     (case pk of
        PString k \<Rightarrow>
          (case ParamToFilter X k pv of
             Inl err \<Rightarrow> Inl err
           | Inr f \<Rightarrow> (case ParamsToFilter_loop X rest of
                         Inl err \<Rightarrow> Inl err
                       | Inr fs \<Rightarrow> Inr (f # fs)))
      | _ \<Rightarrow> Inl (ErrorNew ''Keys should be of string type''))"
| "ParamsToFilter_loop X rest = Inr []"

definition ParamsToFilter :: "Externals \<Rightarrow> param list \<Rightarrow> error + Filter" where
  "ParamsToFilter X params =
     (if length params mod 2 \<noteq> 0
      then Inl (Errorf ''Slice must be defined by pair k,v: %v'' params)
      else case ParamsToFilter_loop X params of
             Inl err \<Rightarrow> Inl err
           | Inr andFilters \<Rightarrow> Inr (AndFilter andFilters))"

text \<open>Go's \<^verbatim>\<open>m[k] = v\<close> and \<^verbatim>\<open>delete(m, k)\<close> on a mapping kept as an association
  list.\<close>

fun map_store :: "string \<Rightarrow> 'v \<Rightarrow> (string \<times> 'v) list \<Rightarrow> (string \<times> 'v) list" where
  "map_store k v [] = [(k, v)]"
| "map_store k v ((k', v') # m) = (if k' = k then (k, v) # m else (k', v') # map_store k v m)"

definition map_delete :: "string \<Rightarrow> (string \<times> 'v) list \<Rightarrow> (string \<times> 'v) list" where
  "map_delete k m = filter (\<lambda>kv. fst kv \<noteq> k) m"

fun SliceToMetadata_loop :: "Externals \<Rightarrow> param list \<Rightarrow> Metadata \<Rightarrow> error + Metadata" where
  "SliceToMetadata_loop X (pk # pv # rest) m =
     (case pk of
        PString k \<Rightarrow>
          (case ParamToFilter X k pv of
             Inl err \<Rightarrow> Inl err
           | Inr f \<Rightarrow> SliceToMetadata_loop X rest (map_store k (MFilter f) m))
      | _ \<Rightarrow> Inl (ErrorNew ''keys should be of string type''))"
| "SliceToMetadata_loop X rest m = Inr m"

definition SliceToMetadata :: "Externals \<Rightarrow> param list \<Rightarrow> error + Metadata" where
  "SliceToMetadata X s =
     (if length s mod 2 \<noteq> 0
      then Inl (Errorf ''slice must be defined by pair k,v: %v'' s)
      else SliceToMetadata_loop X s [])"

section \<open>The traversal steps (\<^verbatim>\<open>topology/graph/traversal/traversal.go\<close>)\<close>

text \<open>
  A step returns its result, or panics: \<open>Inl\<close> is the panic. The steps the source builds
  with only an error, such as \<^verbatim>\<open>&GraphTraversalV{error: err}\<close>, have every other field
  at its zero value.
\<close>

definition G_error :: "error \<Rightarrow> GraphTraversal" where
  "G_error err = \<lparr>error = Some err, Graph = None,
                  currentStepContext = \<lparr>PaginationRange = None\<rparr>\<rparr>"

definition V_error :: "error \<Rightarrow> GraphTraversalV" where
  "V_error err = \<lparr>error = Some err, GraphTraversal = None, nodes = []\<rparr>"

definition E_error :: "error \<Rightarrow> GraphTraversalE" where
  "E_error err = \<lparr>error = Some err, GraphTraversal = None, edges = []\<rparr>"

definition SP_error :: "error \<Rightarrow> GraphTraversalShortestPath" where
  "SP_error err = \<lparr>error = Some err, GraphTraversal = None, paths = []\<rparr>"

definition Value_error :: "error \<Rightarrow> GraphTraversalValue" where
  "Value_error err = \<lparr>error = Some err, GraphTraversal = None, valueV = GNil\<rparr>"

definition NewV :: "GraphTraversal option \<Rightarrow> Node list \<Rightarrow> GraphTraversalV" where
  "NewV gt ns = \<lparr>error = None, GraphTraversal = gt, nodes = ns\<rparr>"

definition NewE :: "GraphTraversal option \<Rightarrow> Edge list \<Rightarrow> GraphTraversalE" where
  "NewE gt es = \<lparr>error = None, GraphTraversal = gt, edges = es\<rparr>"

definition NewValue :: "GraphTraversal option \<Rightarrow> gvalue \<Rightarrow> GraphTraversalValue" where
  "NewValue gt v = \<lparr>error = None, GraphTraversal = gt, valueV = v\<rparr>"

text \<open>Following the pointers \<^verbatim>\<open>tv.GraphTraversal\<close> and \<^verbatim>\<open>t.Graph\<close>: a nil pointer
  panics.\<close>

definition traversalOf :: "'a stepFields_scheme \<Rightarrow> go_panic + GraphTraversal" where
  "traversalOf st = (case GraphTraversal st of None \<Rightarrow> Inl NilDereference | Some t \<Rightarrow> Inr t)"

definition graphOf :: "'a stepFields_scheme \<Rightarrow> go_panic + Graph" where
  "graphOf st =
     (case GraphTraversal st of
        None \<Rightarrow> Inl NilDereference
      | Some t \<Rightarrow> (case Graph t of None \<Rightarrow> Inl NilDereference | Some g \<Rightarrow> Inr g))"

text \<open>\<^verbatim>\<open>tv.GraphTraversal.currentStepContext.PaginationRange.Iterator()\<close>\<close>

definition iteratorOf :: "'a stepFields_scheme \<Rightarrow> go_panic + Iterator" where
  "iteratorOf st =
     (case traversalOf st of
        Inl p \<Rightarrow> Inl p
      | Inr t \<Rightarrow> Inr (IteratorOf (PaginationRange (currentStepContext t))))"

text \<open>
  The two loop bodies over produced elements, with the list built so far and the
  iterator as the state. The first is
  \<^verbatim>\<open>if it.Done() { break L } else if it.Next() { append }\<close>, the second is
  \<^verbatim>\<open>if it.Done() { break L } else { append }\<close>, which never calls \<^verbatim>\<open>Next\<close>.
  \<open>Return\<close> is the break.
\<close>

fun countAndAppend :: "'a list \<Rightarrow> 'a list \<times> Iterator \<Rightarrow> ('a list \<times> Iterator) flow" where
  "countAndAppend [] st = Continue st"
| "countAndAppend (x # xs) (acc, it) =
     (if Done it then Return (acc, it)
      else let (admitted, it') = Next it
           in countAndAppend xs (if admitted then acc @ [x] else acc, it'))"

fun appendUnlessDone :: "'a list \<Rightarrow> 'a list \<times> Iterator \<Rightarrow> ('a list \<times> Iterator) flow" where
  "appendUnlessDone [] st = Continue st"
| "appendUnlessDone (x # xs) (acc, it) =
     (if Done it then Return (acc, it) else appendUnlessDone xs (acc @ [x], it))"

definition unflow :: "'a flow \<Rightarrow> 'a" where
  "unflow f = (case f of Continue x \<Rightarrow> x | Return x \<Rightarrow> x)"

text \<open>Applying a step to the result of a step: a panic ends the chain.\<close>

definition andThen :: "go_panic + 'a \<Rightarrow> ('a \<Rightarrow> go_panic + 'b) \<Rightarrow> go_panic + 'b" where
  "andThen r f = (case r of Inl p \<Rightarrow> Inl p | Inr x \<Rightarrow> f x)"

subsection \<open>Steps of \<^verbatim>\<open>GraphTraversal\<close>\<close>

definition NewGraphTraversal :: "Graph \<Rightarrow> GraphTraversal" where
  "NewGraphTraversal g = \<lparr>error = None, Graph = Some g,
                          currentStepContext = \<lparr>PaginationRange = None\<rparr>\<rparr>"

text \<open>\<^verbatim>\<open>Context\<close>: times are nanoseconds since the epoch, \<^verbatim>\<open>Unix()\<close> is the whole
  seconds.\<close>

definition Unix :: "int \<Rightarrow> int" where
  "Unix t = t div 1000000000"

definition NewTimeSlice :: "int \<Rightarrow> int \<Rightarrow> int \<times> int" where
  "NewTimeSlice s l = (s, l)"

definition Context :: "Externals \<Rightarrow> GraphTraversal \<Rightarrow> param list \<Rightarrow> go_panic + GraphTraversal" where
  "Context X t s =
     (if error t \<noteq> None then Inr t
      else case s of
        [] \<Rightarrow> Inl IndexOutOfRange
      | PTime at # rest \<Rightarrow>
          (case (case rest of
                   [] \<Rightarrow> Inr 0
                 | PDuration d # _ \<Rightarrow> Inr d
                 | _ \<Rightarrow> Inl TypeAssertion) of
             Inl p \<Rightarrow> Inl p
           | Inr duration \<Rightarrow>
               if at > Now X
               then Inr (G_error (ErrorNew ''Sorry, I can't predict the future''))
               else (case Graph t of
                       None \<Rightarrow> Inl NilDereference
                     | Some g0 \<Rightarrow>
                         (case WithContext X g0 (NewTimeSlice (Unix (at - duration)) (Unix at)) of
                            Inl err \<Rightarrow> Inr (G_error err)
                          | Inr g \<Rightarrow> Inr \<lparr>error = None, Graph = Some g,
                                          currentStepContext = \<lparr>PaginationRange = None\<rparr>\<rparr>)))
      | _ \<Rightarrow> Inl TypeAssertion)"

text \<open>\<^verbatim>\<open>V\<close>: the nodes looked up (or the error), then the pagination of the query.\<close>

definition V_lookup :: "Externals \<Rightarrow> GraphTraversal \<Rightarrow> param list \<Rightarrow> go_panic + (error + Node list)" where
  "V_lookup X t s =
     (case s of
        [p] \<Rightarrow>
          (case p of
             PString ident \<Rightarrow>
               (case Graph t of
                  None \<Rightarrow> Inl NilDereference
                | Some g \<Rightarrow>
                    (case GetNode X g ident of
                       None \<Rightarrow> Inr (Inl (Errorf ''Node '%s' does not exist'' [PString ident]))
                     | Some node \<Rightarrow> Inr (Inr [node])))
           | _ \<Rightarrow> Inr (Inl (Errorf ''V accepts only a string when there is only one argument'' [])))
      | _ \<Rightarrow>
          (case (if s = [] then Inr [] else SliceToMetadata X s) of
             Inl err \<Rightarrow> Inr (Inl err)
           | Inr md \<Rightarrow>
               (case Graph t of
                  None \<Rightarrow> Inl NilDereference
                | Some g \<Rightarrow> Inr (Inr (GetNodes X g md)))))"

definition V :: "Externals \<Rightarrow> GraphTraversal \<Rightarrow> param list \<Rightarrow> go_panic + GraphTraversalV" where
  "V X t s =
     (case error t of
        Some err \<Rightarrow> Inr (V_error err)
      | None \<Rightarrow>
          (case V_lookup X t s of
             Inl p \<Rightarrow> Inl p
           | Inr (Inl err) \<Rightarrow> Inr (V_error err)
           | Inr (Inr ns) \<Rightarrow>
               (case PaginationRange (currentStepContext t) of
                  None \<Rightarrow> Inr (NewV (Some t) ns)
                | Some r \<Rightarrow>
                    Inr (NewV (Some t)
                           (fst (unflow (countAndAppend ns ([], IteratorOf (Some r)))))))))"

subsection \<open>Steps of \<^verbatim>\<open>GraphTraversalV\<close>\<close>

definition PropertyValues :: "GraphTraversalV \<Rightarrow> param list \<Rightarrow> go_panic + GraphTraversalValue" where
  "PropertyValues tv keys =
     (case error tv of
        Some err \<Rightarrow> Inr (Value_error err)
      | None \<Rightarrow>
          (case keys of
             [] \<Rightarrow> Inl IndexOutOfRange
           | PString key # _ \<Rightarrow>
               Inr (NewValue (GraphTraversal tv)
                      (GSlice (concat (map (\<lambda>n. case GetField n key of
                                                  Some v \<Rightarrow> [GMeta v]
                                                | None \<Rightarrow> []) (nodes tv)))))
           | _ \<Rightarrow> Inl TypeAssertion))"

text \<open>\<^verbatim>\<open>PropertyKeys\<close>: the keys of each node in the order of its association list (Go
  leaves the order of a \<^verbatim>\<open>range\<close> over a mapping open).\<close>

definition PropertyKeys :: "GraphTraversalV \<Rightarrow> param list \<Rightarrow> go_panic + GraphTraversalValue" where
  "PropertyKeys tv keys =
     (case error tv of
        Some err \<Rightarrow> Inr (Value_error err)
      | None \<Rightarrow>
          Inr (NewValue (GraphTraversal tv)
                 (GSlice (concat (map (\<lambda>n. map (\<lambda>kv. GMeta (VString (fst kv))) (metadata n))
                                   (nodes tv))))))"

fun Sum_loop :: "Externals \<Rightarrow> string \<Rightarrow> Node list \<Rightarrow> 64 word \<Rightarrow> error + 64 word" where
  "Sum_loop X key [] s = Inr s"
| "Sum_loop X key (n # ns) s =
     (case GetFieldInt64 n key of
        Inr val \<Rightarrow>
          (case ToFloat64 X val of
             Inr v \<Rightarrow> Sum_loop X key ns (FloatAdd X s v)
           | Inl err \<Rightarrow> Inl err)
      | Inl _ \<Rightarrow> Sum_loop X key ns s)"

definition Sum :: "Externals \<Rightarrow> GraphTraversalV \<Rightarrow> param list \<Rightarrow> go_panic + GraphTraversalValue" where
  "Sum X tv keys =
     (case error tv of
        Some err \<Rightarrow> Inr (Value_error err)
      | None \<Rightarrow>
          if length keys \<noteq> 1 then Inr (Value_error (Errorf ''Sum requires 1 parameter'' []))
          else (case hd keys of
                  PString key \<Rightarrow>
                    (case Sum_loop X key (nodes tv) 0 of
                       Inl err \<Rightarrow> Inr (Value_error err)
                     | Inr s \<Rightarrow> Inr (NewValue (GraphTraversal tv) (GMeta (VFloat64 s))))
                | _ \<Rightarrow> Inr (Value_error (Errorf ''Sum parameter has to be a string key'' []))))"

text \<open>
  The keys of the \<^verbatim>\<open>visited\<close> mappings, which are \<^verbatim>\<open>map[interface{}]bool\<close>: a node or
  edge identifier, a hash, or a metadata value. Go compares the keys of such a mapping by
  dynamic type and value; a float that is not a number equals nothing, the two zeros are
  equal, and a key that holds a mapping cannot be hashed: the access panics.
\<close>

datatype vkey = KId Identifier | KHash "64 word" | KVal mvalue | KInt int | KNil

definition isNaN64 :: "64 word \<Rightarrow> bool" where
  "isNaN64 w = (and (drop_bit 52 w) 0x7FF = 0x7FF \<and> and w 0xFFFFFFFFFFFFF \<noteq> 0)"

definition float64_eq :: "64 word \<Rightarrow> 64 word \<Rightarrow> bool" where
  "float64_eq a b =
     (\<not> isNaN64 a \<and> \<not> isNaN64 b \<and>
      (a = b \<or> (and a 0x7FFFFFFFFFFFFFFF = 0 \<and> and b 0x7FFFFFFFFFFFFFFF = 0)))"

fun key_eq :: "vkey \<Rightarrow> vkey \<Rightarrow> bool" where
  "key_eq (KVal (VFloat64 a)) (KVal (VFloat64 b)) = float64_eq a b"
| "key_eq a b = (a = b)"

fun hashable :: "vkey \<Rightarrow> bool" where
  "hashable (KVal (VMap m)) = False"
| "hashable k = True"

definition visited_has :: "vkey list \<Rightarrow> vkey \<Rightarrow> bool" where
  "visited_has visited k = list_ex (\<lambda>k'. key_eq k' k) visited"

text \<open>The values of the given keys of a node, or nothing when one is missing.\<close>

fun Dedup_values :: "Node \<Rightarrow> string list \<Rightarrow> mvalue list option" where
  "Dedup_values n [] = Some []"
| "Dedup_values n (key # keys) =
     (case GetField n key of
        None \<Rightarrow> None
      | Some v \<Rightarrow> (case Dedup_values n keys of None \<Rightarrow> None | Some vs \<Rightarrow> Some (v # vs)))"

text \<open>The loop of \<^verbatim>\<open>GraphTraversalV.Dedup\<close>. Its state is the iterator and the
  \<^verbatim>\<open>visited\<close> mapping.\<close>

fun V_Dedup_loop ::
  "Externals \<Rightarrow> string list \<Rightarrow> Node list \<Rightarrow> Iterator \<Rightarrow> vkey list \<Rightarrow> Node list" where
  "V_Dedup_loop X keys [] it visited = []"
| "V_Dedup_loop X keys (n # ns) it visited =
     (if Done it then []
      else case (if length keys \<noteq> 0
                 then (case Dedup_values n keys of
                         None \<Rightarrow> None
                       | Some values \<Rightarrow>
                           (let (h, err) = Hash X values in Some (KHash h, err \<noteq> None)))
                 else Some (KId (ID n), False)) of
             None \<Rightarrow> V_Dedup_loop X keys ns it visited
           | Some (kvisited, skip) \<Rightarrow>
               if visited_has visited kvisited then V_Dedup_loop X keys ns it visited
               else (let (admitted, it') = Next it
                     in if \<not> admitted then V_Dedup_loop X keys ns it' visited
                        else n # V_Dedup_loop X keys ns it'
                                   (if \<not> skip then kvisited # visited else visited)))"

text \<open>The arguments of \<^verbatim>\<open>Dedup\<close> as string keys, or nothing when one is not a string.\<close>

fun stringKeys :: "param list \<Rightarrow> string list option" where
  "stringKeys [] = Some []"
| "stringKeys (PString k # rest) =
     (case stringKeys rest of None \<Rightarrow> None | Some ks \<Rightarrow> Some (k # ks))"
| "stringKeys (p # rest) = None"

definition V_Dedup :: "Externals \<Rightarrow> GraphTraversalV \<Rightarrow> param list \<Rightarrow> go_panic + GraphTraversalV" where
  "V_Dedup X tv s =
     (if error tv \<noteq> None then Inr tv
      else case stringKeys s of
        None \<Rightarrow> Inr (V_error (Errorf ''Dedup parameters have to be string keys'' []))
      | Some keys \<Rightarrow>
          (case iteratorOf tv of
             Inl p \<Rightarrow> Inl p
           | Inr it \<Rightarrow> Inr (NewV (GraphTraversal tv) (V_Dedup_loop X keys (nodes tv) it []))))"

text \<open>The loop of \<^verbatim>\<open>ShortestPathTo\<close>: \<^verbatim>\<open>visited\<close> is read and never written.\<close>

fun ShortestPathTo_loop ::
  "Externals \<Rightarrow> Graph option \<Rightarrow> Metadata \<Rightarrow> Metadata \<Rightarrow> Node list \<Rightarrow> Identifier list
    \<Rightarrow> go_panic + Node list list" where
  "ShortestPathTo_loop X g m e [] visited = Inr []"
| "ShortestPathTo_loop X g m e (n # ns) visited =
     (if ID n \<notin> set visited
      then (case g of
              None \<Rightarrow> Inl NilDereference
            | Some gr \<Rightarrow>
                (let path = LookupShortestPath X gr n m e
                 in case ShortestPathTo_loop X g m e ns visited of
                      Inl p \<Rightarrow> Inl p
                    | Inr ps \<Rightarrow> Inr (if length path > 0 then path # ps else ps)))
      else ShortestPathTo_loop X g m e ns visited)"

definition ShortestPathTo ::
  "Externals \<Rightarrow> GraphTraversalV \<Rightarrow> Metadata \<Rightarrow> Metadata \<Rightarrow> go_panic + GraphTraversalShortestPath" where
  "ShortestPathTo X tv m e =
     (case error tv of
        Some err \<Rightarrow> Inr (SP_error err)
      | None \<Rightarrow>
          (case ShortestPathTo_loop X (case GraphTraversal tv of None \<Rightarrow> None | Some t \<Rightarrow> Graph t)
                  m e (nodes tv) [] of
             Inl p \<Rightarrow> Inl p
           | Inr ps \<Rightarrow> Inr \<lparr>error = None, GraphTraversal = GraphTraversal tv, paths = ps\<rparr>))"

definition V_hasKey :: "GraphTraversalV \<Rightarrow> string \<Rightarrow> GraphTraversalV" where
  "V_hasKey tv k =
     (if error tv \<noteq> None then tv
      else NewV (GraphTraversal tv) (filter (\<lambda>n. GetField n k \<noteq> None) (nodes tv)))"

text \<open>The loop of the \<^verbatim>\<open>Has\<close> steps:
  \<^verbatim>\<open>if it.Done() { break }; if matches(x) && it.Next() { append }\<close>.\<close>

fun Has_loop :: "('a \<Rightarrow> bool) \<Rightarrow> 'a list \<Rightarrow> Iterator \<Rightarrow> 'a list" where
  "Has_loop matches [] it = []"
| "Has_loop matches (x # xs) it =
     (if Done it then []
      else if matches x
           then (let (admitted, it') = Next it
                 in if admitted then x # Has_loop matches xs it' else Has_loop matches xs it')
           else Has_loop matches xs it)"

definition V_Has :: "Externals \<Rightarrow> GraphTraversalV \<Rightarrow> param list \<Rightarrow> go_panic + GraphTraversalV" where
  "V_Has X tv s =
     (if error tv \<noteq> None then Inr tv
      else case s of
        [] \<Rightarrow> Inr (V_error (ErrorNew ''At least one parameter must be provided''))
      | [p] \<Rightarrow>
          (case p of
             PString k \<Rightarrow> Inr (V_hasKey tv k)
           | _ \<Rightarrow> Inr (V_error (ErrorNew ''Key must be a string'')))
      | _ \<Rightarrow>
          (case iteratorOf tv of
             Inl p \<Rightarrow> Inl p
           | Inr it \<Rightarrow>
               (case ParamsToFilter X s of
                  Inl err \<Rightarrow> Inr (V_error err)
                | Inr f \<Rightarrow> Inr (NewV (GraphTraversal tv) (Has_loop (Eval X f) (nodes tv) it)))))"

text \<open>
  The labelled loop \<^verbatim>\<open>nodeloop:\<close> over the nodes of a step: the body works on the
  elements produced for one node and may leave the whole loop.
\<close>

fun nodeloop ::
  "(Node \<Rightarrow> 'a list \<times> Iterator \<Rightarrow> ('a list \<times> Iterator) flow) \<Rightarrow> Node list
    \<Rightarrow> 'a list \<times> Iterator \<Rightarrow> 'a list" where
  "nodeloop body [] st = fst st"
| "nodeloop body (n # ns) st =
     (case body n st of Return st' \<Rightarrow> fst st' | Continue st' \<Rightarrow> nodeloop body ns st')"

text \<open>
  A loop that calls the graph at each element: with a nil \<^verbatim>\<open>Graph\<close> pointer the first
  pass panics, and no element means no call.
\<close>

definition loopOnGraph ::
  "'a stepFields_scheme \<Rightarrow> 'b list \<Rightarrow> (Graph \<Rightarrow> 'c list) \<Rightarrow> go_panic + 'c list" where
  "loopOnGraph st xs run =
     (case graphOf st of
        Inl p \<Rightarrow> if xs = [] then Inr [] else Inl p
      | Inr g \<Rightarrow> Inr (run g))"

fun Both_edges ::
  "Externals \<Rightarrow> Graph \<Rightarrow> Metadata \<Rightarrow> Node \<Rightarrow> Edge list \<Rightarrow> Node list \<times> Iterator
    \<Rightarrow> (Node list \<times> Iterator) flow" where
  "Both_edges X g md n [] st = Continue st"
| "Both_edges X g md n (e # es) st =
     (case countAndAppend
             (if child e = ID n then fst (GetEdgeNodes X g e md [])
              else snd (GetEdgeNodes X g e [] md)) st of
        Return st' \<Rightarrow> Return st'
      | Continue st' \<Rightarrow> Both_edges X g md n es st')"

definition Both :: "Externals \<Rightarrow> GraphTraversalV \<Rightarrow> param list \<Rightarrow> go_panic + GraphTraversalV" where
  "Both X tv s =
     (if error tv \<noteq> None then Inr tv
      else case SliceToMetadata X s of
        Inl err \<Rightarrow> Inr (V_error err)
      | Inr md \<Rightarrow>
          (case iteratorOf tv of
             Inl p \<Rightarrow> Inl p
           | Inr it \<Rightarrow>
               (case loopOnGraph tv (nodes tv)
                       (\<lambda>g. nodeloop (\<lambda>n. Both_edges X g md n (GetNodeEdges X g n []))
                              (nodes tv) ([], it)) of
                  Inl p \<Rightarrow> Inl p
                | Inr ns \<Rightarrow> Inr (NewV (GraphTraversal tv) ns))))"

definition V_Count :: "GraphTraversalV \<Rightarrow> param list \<Rightarrow> GraphTraversalValue" where
  "V_Count tv s =
     (case error tv of
        Some err \<Rightarrow> Value_error err
      | None \<Rightarrow> NewValue (GraphTraversal tv) (GInt (int (length (nodes tv)))))"

text \<open>The loop of \<^verbatim>\<open>Range\<close>:
  \<^verbatim>\<open>for ; from < len(xs) && from < to; from++ { append(xs[from]) }\<close>; a negative index
  panics.\<close>

function Range_loop :: "'a list \<Rightarrow> int \<Rightarrow> int \<Rightarrow> go_panic + 'a list" where
  "Range_loop xs from to =
     (if from < int (length xs) \<and> from < to
      then (if from < 0 then Inl IndexOutOfRange
            else case Range_loop xs (from + 1) to of
                   Inl p \<Rightarrow> Inl p
                 | Inr r \<Rightarrow> Inr (xs ! nat from # r))
      else Inr [])"
  by pat_completeness auto
termination
  by (relation "measure (\<lambda>(xs, from, to). nat (int (length xs) - from))") auto

declare Range_loop.simps [simp del]

definition V_Range :: "GraphTraversalV \<Rightarrow> param list \<Rightarrow> go_panic + GraphTraversalV" where
  "V_Range tv s =
     (case error tv of
        Some err \<Rightarrow> Inr (V_error err)
      | None \<Rightarrow>
          (case s of
             [a, b] \<Rightarrow>
               (case a of
                  PInt64 from \<Rightarrow>
                    (case b of
                       PInt64 to \<Rightarrow>
                         (case Range_loop (nodes tv) from to of
                            Inl p \<Rightarrow> Inl p
                          | Inr ns \<Rightarrow> Inr (NewV (GraphTraversal tv) ns))
                     | _ \<Rightarrow> Inr (V_error (Errorf ''%s is not an integer'' [b])))
                | _ \<Rightarrow> Inr (V_error (Errorf ''%s is not an integer'' [a])))
           | _ \<Rightarrow> Inr (V_error (ErrorNew
                          (''2 parameters must be provided to 'range'' @ [CHR 0x27])))))"

text \<open>\<^verbatim>\<open>Limit\<close> reads \<^verbatim>\<open>s[0]\<close> before it calls \<^verbatim>\<open>Range\<close>.\<close>

definition V_Limit :: "GraphTraversalV \<Rightarrow> param list \<Rightarrow> go_panic + GraphTraversalV" where
  "V_Limit tv s =
     (case s of [] \<Rightarrow> Inl IndexOutOfRange | p # _ \<Rightarrow> V_Range tv [PInt64 0, p])"

definition Out :: "Externals \<Rightarrow> GraphTraversalV \<Rightarrow> param list \<Rightarrow> go_panic + GraphTraversalV" where
  "Out X tv s =
     (if error tv \<noteq> None then Inr tv
      else case SliceToMetadata X s of
        Inl err \<Rightarrow> Inr (V_error err)
      | Inr md \<Rightarrow>
          (case iteratorOf tv of
             Inl p \<Rightarrow> Inl p
           | Inr it \<Rightarrow>
               (case loopOnGraph tv (nodes tv)
                       (\<lambda>g. nodeloop (\<lambda>n. countAndAppend (LookupChildren X g n md []))
                              (nodes tv) ([], it)) of
                  Inl p \<Rightarrow> Inl p
                | Inr ns \<Rightarrow> Inr (NewV (GraphTraversal tv) ns))))"

text \<open>\<^verbatim>\<open>OutE\<close>: of the edges of a node, those whose parent is the node go through the
  loop body, which here does not call \<^verbatim>\<open>Next\<close>.\<close>

definition OutE :: "Externals \<Rightarrow> GraphTraversalV \<Rightarrow> param list \<Rightarrow> go_panic + GraphTraversalE" where
  "OutE X tv s =
     (case error tv of
        Some err \<Rightarrow> Inr (E_error err)
      | None \<Rightarrow>
          (case SliceToMetadata X s of
             Inl err \<Rightarrow> Inr (E_error err)
           | Inr md \<Rightarrow>
               (case iteratorOf tv of
                  Inl p \<Rightarrow> Inl p
                | Inr it \<Rightarrow>
                    (case loopOnGraph tv (nodes tv)
                            (\<lambda>g. nodeloop
                                   (\<lambda>n. appendUnlessDone
                                           (filter (\<lambda>e. parent e = ID n) (GetNodeEdges X g n md)))
                                   (nodes tv) ([], it)) of
                       Inl p \<Rightarrow> Inl p
                     | Inr es \<Rightarrow> Inr (NewE (GraphTraversal tv) es)))))"

text \<open>\<^verbatim>\<open>In\<close>: the loop body does not call \<^verbatim>\<open>Next\<close> either.\<close>

definition In :: "Externals \<Rightarrow> GraphTraversalV \<Rightarrow> param list \<Rightarrow> go_panic + GraphTraversalV" where
  "In X tv s =
     (if error tv \<noteq> None then Inr tv
      else case SliceToMetadata X s of
        Inl err \<Rightarrow> Inr (V_error err)
      | Inr md \<Rightarrow>
          (case iteratorOf tv of
             Inl p \<Rightarrow> Inl p
           | Inr it \<Rightarrow>
               (case loopOnGraph tv (nodes tv)
                       (\<lambda>g. nodeloop (\<lambda>n. appendUnlessDone (LookupParents X g n md []))
                              (nodes tv) ([], it)) of
                  Inl p \<Rightarrow> Inl p
                | Inr ns \<Rightarrow> Inr (NewV (GraphTraversal tv) ns))))"

text \<open>\<^verbatim>\<open>InE\<close>: on an error of its arguments the step keeps the pointer to the
  traversal.\<close>

definition InE :: "Externals \<Rightarrow> GraphTraversalV \<Rightarrow> param list \<Rightarrow> go_panic + GraphTraversalE" where
  "InE X tv s =
     (case error tv of
        Some err \<Rightarrow> Inr (E_error err)
      | None \<Rightarrow>
          (case SliceToMetadata X s of
             Inl err \<Rightarrow> Inr \<lparr>error = Some err, GraphTraversal = GraphTraversal tv, edges = []\<rparr>
           | Inr md \<Rightarrow>
               (case iteratorOf tv of
                  Inl p \<Rightarrow> Inl p
                | Inr it \<Rightarrow>
                    (case loopOnGraph tv (nodes tv)
                            (\<lambda>g. nodeloop
                                   (\<lambda>n. countAndAppend
                                           (filter (\<lambda>e. child e = ID n) (GetNodeEdges X g n md)))
                                   (nodes tv) ([], it)) of
                       Inl p \<Rightarrow> Inl p
                     | Inr es \<Rightarrow> Inr (NewE (GraphTraversal tv) es)))))"

subsection \<open>Steps of \<^verbatim>\<open>GraphTraversalE\<close>\<close>

definition E_Count :: "GraphTraversalE \<Rightarrow> param list \<Rightarrow> GraphTraversalValue" where
  "E_Count te s =
     (case error te of
        Some err \<Rightarrow> Value_error err
      | None \<Rightarrow> NewValue (GraphTraversal te) (GInt (int (length (edges te)))))"

definition E_Range :: "GraphTraversalE \<Rightarrow> param list \<Rightarrow> go_panic + GraphTraversalE" where
  "E_Range te s =
     (if error te \<noteq> None then Inr te
      else case s of
        [a, b] \<Rightarrow>
          (case a of
             PInt64 from \<Rightarrow>
               (case b of
                  PInt64 to \<Rightarrow>
                    (case Range_loop (edges te) from to of
                       Inl p \<Rightarrow> Inl p
                     | Inr es \<Rightarrow> Inr (NewE (GraphTraversal te) es))
                | _ \<Rightarrow> Inr (E_error (Errorf ''%s is not an integer'' [b])))
           | _ \<Rightarrow> Inr (E_error (Errorf ''%s is not an integer'' [a])))
      | _ \<Rightarrow> Inr \<lparr>error = Some (ErrorNew
                                  (''2 parameters must be provided to 'range'' @ [CHR 0x27])),
                 GraphTraversal = GraphTraversal te, edges = []\<rparr>)"

definition E_Limit :: "GraphTraversalE \<Rightarrow> param list \<Rightarrow> go_panic + GraphTraversalE" where
  "E_Limit te s =
     (if error te \<noteq> None then Inr te
      else case s of [] \<Rightarrow> Inl IndexOutOfRange | p # _ \<Rightarrow> E_Range te [PInt64 0, p])"

text \<open>The loop of \<^verbatim>\<open>GraphTraversalE.Dedup\<close>: the visited key is the identifier of the
  edge, or the value of the key when a key is given and the edge has it.\<close>

definition E_Dedup_key :: "string \<Rightarrow> Edge \<Rightarrow> vkey" where
  "E_Dedup_key key e =
     (if key \<noteq> []
      then (case GetField e key of Some v \<Rightarrow> KVal v | None \<Rightarrow> KId (ID e))
      else KId (ID e))"

fun E_Dedup_loop :: "string \<Rightarrow> Edge list \<Rightarrow> vkey list \<Rightarrow> go_panic + Edge list" where
  "E_Dedup_loop key [] visited = Inr []"
| "E_Dedup_loop key (e # es) visited =
     (let kvisited = E_Dedup_key key e
      in if \<not> hashable kvisited then Inl UnhashableKey
         else if visited_has visited kvisited then E_Dedup_loop key es visited
         else (case E_Dedup_loop key es (kvisited # visited) of
                 Inl p \<Rightarrow> Inl p
               | Inr r \<Rightarrow> Inr (e # r)))"

definition E_Dedup :: "GraphTraversalE \<Rightarrow> param list \<Rightarrow> go_panic + GraphTraversalE" where
  "E_Dedup te keys =
     (if error te \<noteq> None then Inr te
      else case (case keys of
                   [] \<Rightarrow> Some []
                 | PString k # _ \<Rightarrow> Some k
                 | _ \<Rightarrow> None) of
        None \<Rightarrow> Inr (E_error (Errorf ''Dedup parameter has to be a string key'' []))
      | Some key \<Rightarrow>
          (case E_Dedup_loop key (edges te) [] of
             Inl p \<Rightarrow> Inl p
           | Inr es \<Rightarrow> Inr (NewE (GraphTraversal te) es)))"

definition E_hasKey :: "GraphTraversalE \<Rightarrow> string \<Rightarrow> go_panic + GraphTraversalE" where
  "E_hasKey te k =
     (if error te \<noteq> None then Inr te
      else case iteratorOf te of
        Inl p \<Rightarrow> Inl p
      | Inr it \<Rightarrow>
          Inr (NewE (GraphTraversal te) (Has_loop (\<lambda>e. GetField e k \<noteq> None) (edges te) it)))"

definition E_Has :: "Externals \<Rightarrow> GraphTraversalE \<Rightarrow> param list \<Rightarrow> go_panic + GraphTraversalE" where
  "E_Has X te s =
     (if error te \<noteq> None then Inr te
      else case s of
        [] \<Rightarrow> Inr (E_error (ErrorNew ''At least one parameters must be provided''))
      | [p] \<Rightarrow>
          (case p of
             PString k \<Rightarrow> E_hasKey te k
           | _ \<Rightarrow> Inr (E_error (ErrorNew ''Key must be a string'')))
      | _ \<Rightarrow>
          (case SliceToMetadata X s of
             Inl err \<Rightarrow> Inr (E_error err)
           | Inr m \<Rightarrow>
               (case iteratorOf te of
                  Inl p \<Rightarrow> Inl p
                | Inr it \<Rightarrow>
                    Inr (NewE (GraphTraversal te)
                           (Has_loop (\<lambda>e. MatchMetadata X e m) (edges te) it)))))"

text \<open>The loops of \<^verbatim>\<open>InV\<close> and \<^verbatim>\<open>OutV\<close>: the \<^verbatim>\<open>break\<close> leaves the inner loop
  only.\<close>

fun edgeloop ::
  "(Edge \<Rightarrow> Node list) \<Rightarrow> Edge list \<Rightarrow> Node list \<times> Iterator \<Rightarrow> Node list" where
  "edgeloop ends [] st = fst st"
| "edgeloop ends (e # es) st = edgeloop ends es (unflow (countAndAppend (ends e) st))"

definition InV :: "Externals \<Rightarrow> GraphTraversalE \<Rightarrow> param list \<Rightarrow> go_panic + GraphTraversalV" where
  "InV X te s =
     (case error te of
        Some err \<Rightarrow> Inr (V_error err)
      | None \<Rightarrow>
          (case SliceToMetadata X s of
             Inl err \<Rightarrow> Inr (V_error err)
           | Inr md \<Rightarrow>
               (case iteratorOf te of
                  Inl p \<Rightarrow> Inl p
                | Inr it \<Rightarrow>
                    (case loopOnGraph te (edges te)
                            (\<lambda>g. edgeloop (\<lambda>e. fst (GetEdgeNodes X g e md []))
                                   (edges te) ([], it)) of
                       Inl p \<Rightarrow> Inl p
                     | Inr ns \<Rightarrow> Inr (NewV (GraphTraversal te) ns)))))"

definition OutV :: "Externals \<Rightarrow> GraphTraversalE \<Rightarrow> param list \<Rightarrow> go_panic + GraphTraversalV" where
  "OutV X te s =
     (case error te of
        Some err \<Rightarrow> Inr (V_error err)
      | None \<Rightarrow>
          (case SliceToMetadata X s of
             Inl err \<Rightarrow> Inr (V_error err)
           | Inr md \<Rightarrow>
               (case iteratorOf te of
                  Inl p \<Rightarrow> Inl p
                | Inr it \<Rightarrow>
                    (case loopOnGraph te (edges te)
                            (\<lambda>g. edgeloop (\<lambda>e. snd (GetEdgeNodes X g e [] md))
                                   (edges te) ([], it)) of
                       Inl p \<Rightarrow> Inl p
                     | Inr ns \<Rightarrow> Inr (NewV (GraphTraversal te) ns)))))"

subsection \<open>Steps of \<^verbatim>\<open>GraphTraversalValue\<close>\<close>

text \<open>A value as the key of the \<^verbatim>\<open>visited\<close> mapping; a slice cannot be hashed, and of
  a pointer the key is the pointer.\<close>

datatype gkey = Key vkey | KPtr gvalue | Unhashable

fun gkeyOf :: "gvalue \<Rightarrow> gkey" where
  "gkeyOf GNil = Key KNil"
| "gkeyOf (GInt i) = Key (KInt i)"
| "gkeyOf (GMeta v) = (if hashable (KVal v) then Key (KVal v) else Unhashable)"
| "gkeyOf (GSlice vs) = Unhashable"
| "gkeyOf (GPath ns) = Unhashable"
| "gkeyOf v = KPtr v"

fun gkey_eq :: "gkey \<Rightarrow> gkey \<Rightarrow> bool" where
  "gkey_eq (Key a) (Key b) = key_eq a b"
| "gkey_eq a b = (a = b)"

fun Value_Dedup_loop :: "gvalue list \<Rightarrow> gkey list \<Rightarrow> go_panic + gvalue list" where
  "Value_Dedup_loop [] visited = Inr []"
| "Value_Dedup_loop (v # vs) visited =
     (if gkeyOf v = Unhashable then Inl UnhashableKey
      else if list_ex (\<lambda>k. gkey_eq k (gkeyOf v)) visited then Value_Dedup_loop vs visited
      else (case Value_Dedup_loop vs (gkeyOf v # visited) of
              Inl p \<Rightarrow> Inl p
            | Inr r \<Rightarrow> Inr (v # r)))"

definition Value_Dedup :: "GraphTraversalValue \<Rightarrow> param list \<Rightarrow> go_panic + GraphTraversalValue" where
  "Value_Dedup t keys =
     (if error t \<noteq> None then Inr t
      else case Value_Dedup_loop (Value_Values t) [] of
        Inl p \<Rightarrow> Inl p
      | Inr nv \<Rightarrow> Inr (NewValue (GraphTraversal t) (GSlice nv)))"

section \<open>The on-demand probe client (\<^verbatim>\<open>flow/ondemand/client/client.go\<close>)\<close>

text \<open>Modelled from the spec: a capture has a UUID, a query string and opaque capture
  parameters.\<close>

record Capture =
  UUID :: string
  GremlinQuery :: string
  Parameters :: string

text \<open>Modelled from the spec: the payload \<^verbatim>\<open>ondemand.CaptureQuery{NodeID, Capture}\<close> and
  the envelope made by \<^verbatim>\<open>shttp.NewWSMessage\<close>, which carries the channel, a type and the
  payload.\<close>

record CaptureQuery =
  NodeID :: string
  CaptureOf :: Capture

datatype WSPayload = ObjCaptureQuery CaptureQuery | ObjCapture Capture

record WSMessage =
  Namespace :: string
  Type :: string
  Obj :: WSPayload

text \<open>Modelled from the spec: \<^verbatim>\<open>ondemand.Namespace\<close>, the single channel
  "ondemand".\<close>

definition ondemand_Namespace :: string where
  "ondemand_Namespace = ''ondemand''"

definition NewWSMessage :: "string \<Rightarrow> string \<Rightarrow> WSPayload \<Rightarrow> WSMessage" where
  "NewWSMessage ns tp obj = \<lparr>Namespace = ns, Type = tp, Obj = obj\<rparr>"

definition zeroCapture :: Capture where
  "zeroCapture = \<lparr>UUID = [], GremlinQuery = [], Parameters = []\<rparr>"

text \<open>What the client asks of the message bus, and what it writes to the log.\<close>

datatype ws_call = SendWSMessageTo WSMessage string | BroadcastWSMessage WSMessage

datatype log_entry = LogDebugf string "string list" | LogErrorf string "string list"

text \<open>
  The collaborators that are not in the sources: query evaluation
  (\<^verbatim>\<open>topology.ExecuteGremlinQuery\<close>) and the delivery result of the bus
  (\<^verbatim>\<open>SendWSMessageTo\<close> returns whether the message was delivered).
\<close>

record ClientDeps =
  ExecuteGremlinQuery :: "Graph \<Rightarrow> string \<Rightarrow> error + GraphTraversalStep"
  Delivered :: "WSMessage \<Rightarrow> string \<Rightarrow> bool"

text \<open>
  The client with what it acts on: \<open>elector\<close> is what \<^verbatim>\<open>o.elector.IsMaster()\<close> returns,
  \<open>wsServer\<close> the calls made on the bus (oldest first), \<open>logger\<close> the log, and
  \<open>goroutines\<close> the calls of \<^verbatim>\<open>registerProbes\<close> started with \<^verbatim>\<open>go\<close> and not yet run.
  The capture mapping is an association list; a \<^verbatim>\<open>range\<close> over it goes in list order.
  Locks are not modelled.
\<close>

record OnDemandProbeClient =
  graph :: Graph
  captures :: "(string \<times> Capture) list"
  elector :: bool
  wsServer :: "ws_call list"
  logger :: "log_entry list"
  goroutines :: "(gvalue list \<times> Capture) list"

definition registerProbe ::
  "ClientDeps \<Rightarrow> Identifier \<Rightarrow> string \<Rightarrow> Capture \<Rightarrow> OnDemandProbeClient
    \<Rightarrow> bool \<times> OnDemandProbeClient" where
  "registerProbe D ident hst capture c =
     (let cq = \<lparr>NodeID = ident, CaptureOf = capture\<rparr>;
          msg = NewWSMessage ondemand_Namespace ''CaptureStart'' (ObjCaptureQuery cq);
          c' = c\<lparr>wsServer := wsServer c @ [SendWSMessageTo msg hst]\<rparr>
      in if \<not> Delivered D msg hst
         then (False, c'\<lparr>logger := logger c' @
                 [LogErrorf ''Unable to send message to agent: %s'' [hst]]\<rparr>)
         else (True, c'))"

definition unregisterProbe ::
  "ClientDeps \<Rightarrow> Node \<Rightarrow> OnDemandProbeClient \<Rightarrow> bool \<times> OnDemandProbeClient" where
  "unregisterProbe D node c =
     (let msg = NewWSMessage ondemand_Namespace ''CaptureStop''
                  (ObjCaptureQuery \<lparr>NodeID = ID node, CaptureOf = zeroCapture\<rparr>);
          c' = c\<lparr>wsServer := wsServer c @ [SendWSMessageTo msg (host node)]\<rparr>
      in if \<not> Delivered D msg (host node)
         then (False, c'\<lparr>logger := logger c' @
                 [LogErrorf ''Unable to send message to agent: %s'' [host node]]\<rparr>)
         else (True, c'))"

text \<open>\<^verbatim>\<open>_, err := node.GetFieldString("Capture/ID"); err == nil\<close>\<close>

definition hasCaptureID :: "Node \<Rightarrow> bool" where
  "hasCaptureID node = (case GetFieldString node ''Capture/ID'' of Inl _ \<Rightarrow> False | Inr _ \<Rightarrow> True)"

text \<open>The inner loop of \<^verbatim>\<open>registerProbes\<close> over a list of nodes (a shortest path): on a
  node that carries \<^verbatim>\<open>Capture/ID\<close> the source returns from \<^verbatim>\<open>registerProbes\<close>.\<close>

fun registerProbes_path ::
  "ClientDeps \<Rightarrow> Node list \<Rightarrow> Capture \<Rightarrow> OnDemandProbeClient \<Rightarrow> OnDemandProbeClient flow" where
  "registerProbes_path D [] capture c = Continue c"
| "registerProbes_path D (node # rest) capture c =
     (if hasCaptureID node then Return c
      else registerProbes_path D rest capture
             (snd (registerProbe D (ID node) (host node) capture c)))"

text \<open>\<^verbatim>\<open>registerProbes\<close>: the outer loop over the values of the query.\<close>

fun registerProbes ::
  "ClientDeps \<Rightarrow> gvalue list \<Rightarrow> Capture \<Rightarrow> OnDemandProbeClient \<Rightarrow> OnDemandProbeClient" where
  "registerProbes D [] capture c = c"
| "registerProbes D (i # rest) capture c =
     (case i of
        GNode node \<Rightarrow>
          if hasCaptureID node then c
          else registerProbes D rest capture
                 (snd (registerProbe D (ID node) (host node) capture c))
      | GPath ns \<Rightarrow>
          (case registerProbes_path D ns capture c of
             Return c' \<Rightarrow> c'
           | Continue c' \<Rightarrow> registerProbes D rest capture c')
      | _ \<Rightarrow> registerProbes D rest capture c)"

definition applyGremlinExpr ::
  "ClientDeps \<Rightarrow> string \<Rightarrow> OnDemandProbeClient \<Rightarrow> gvalue list \<times> OnDemandProbeClient" where
  "applyGremlinExpr D query c =
     (case ExecuteGremlinQuery D (graph c) query of
        Inl err \<Rightarrow> ([], c\<lparr>logger := logger c @ [LogErrorf ''Gremlin error: %s'' []]\<rparr>)
      | Inr res \<Rightarrow> (Values res, c))"

text \<open>\<^verbatim>\<open>go o.registerProbes(res, capture)\<close>: the call is started, not run.\<close>

definition go_registerProbes ::
  "gvalue list \<Rightarrow> Capture \<Rightarrow> OnDemandProbeClient \<Rightarrow> OnDemandProbeClient" where
  "go_registerProbes res capture c = c\<lparr>goroutines := goroutines c @ [(res, capture)]\<rparr>"

fun onNodeEvent_loop ::
  "ClientDeps \<Rightarrow> (string \<times> Capture) list \<Rightarrow> OnDemandProbeClient \<Rightarrow> OnDemandProbeClient" where
  "onNodeEvent_loop D [] c = c"
| "onNodeEvent_loop D ((uuid, capture) # rest) c =
     (let (res, c') = applyGremlinExpr D (GremlinQuery capture) c
      in onNodeEvent_loop D rest
           (if length res > 0 then go_registerProbes res capture c' else c'))"

definition onNodeEvent :: "ClientDeps \<Rightarrow> OnDemandProbeClient \<Rightarrow> OnDemandProbeClient" where
  "onNodeEvent D c = (if \<not> elector c then c else onNodeEvent_loop D (captures c) c)"

text \<open>The graph listener: the three events the client reacts to.\<close>

definition OnNodeAdded :: "ClientDeps \<Rightarrow> Node \<Rightarrow> OnDemandProbeClient \<Rightarrow> OnDemandProbeClient" where
  "OnNodeAdded D n c = onNodeEvent D c"

definition OnNodeUpdated :: "ClientDeps \<Rightarrow> Node \<Rightarrow> OnDemandProbeClient \<Rightarrow> OnDemandProbeClient" where
  "OnNodeUpdated D n c = onNodeEvent D c"

definition OnEdgeAdded :: "ClientDeps \<Rightarrow> Edge \<Rightarrow> OnDemandProbeClient \<Rightarrow> OnDemandProbeClient" where
  "OnEdgeAdded D e c = onNodeEvent D c"

definition onCaptureAdded ::
  "ClientDeps \<Rightarrow> Capture \<Rightarrow> OnDemandProbeClient \<Rightarrow> OnDemandProbeClient" where
  "onCaptureAdded D capture c =
     (if \<not> elector c then c
      else let c1 = c\<lparr>captures := map_store (UUID capture) capture (captures c)\<rparr>;
               (ns, c2) = applyGremlinExpr D (GremlinQuery capture) c1
           in if length ns > 0 then go_registerProbes ns capture c2 else c2)"

text \<open>The loop of \<^verbatim>\<open>onCaptureDeleted\<close> over the values of the query; a value that is
  neither a node nor a list of nodes ends the function.\<close>

definition stopProbe :: "ClientDeps \<Rightarrow> Node \<Rightarrow> OnDemandProbeClient \<Rightarrow> OnDemandProbeClient" where
  "stopProbe D node c =
     (let (ok, c') = unregisterProbe D node c
      in if \<not> ok
         then c'\<lparr>logger := logger c' @ [LogErrorf ''Failed to stop capture on %s'' [ID node]]\<rparr>
         else c')"

fun onCaptureDeleted_loop ::
  "ClientDeps \<Rightarrow> gvalue list \<Rightarrow> OnDemandProbeClient \<Rightarrow> OnDemandProbeClient" where
  "onCaptureDeleted_loop D [] c = c"
| "onCaptureDeleted_loop D (v # rest) c =
     (case v of
        GNode e \<Rightarrow> onCaptureDeleted_loop D rest (stopProbe D e c)
      | GPath e \<Rightarrow> onCaptureDeleted_loop D rest (fold (stopProbe D) e c)
      | _ \<Rightarrow> c)"

definition onCaptureDeleted ::
  "ClientDeps \<Rightarrow> Capture \<Rightarrow> OnDemandProbeClient \<Rightarrow> OnDemandProbeClient" where
  "onCaptureDeleted D capture c =
     (if \<not> elector c then c
      else let c1 = c\<lparr>captures := map_delete (UUID capture) (captures c)\<rparr>
           in case ExecuteGremlinQuery D (graph c1) (GremlinQuery capture) of
                Inl err \<Rightarrow> c1\<lparr>logger := logger c1 @ [LogErrorf ''Gremlin error: %s'' []]\<rparr>
              | Inr res \<Rightarrow> onCaptureDeleted_loop D (Values res) c1)"

definition onAPIWatcherEvent ::
  "ClientDeps \<Rightarrow> string \<Rightarrow> string \<Rightarrow> Capture \<Rightarrow> OnDemandProbeClient \<Rightarrow> OnDemandProbeClient" where
  "onAPIWatcherEvent D action ident capture c =
     (let c0 = c\<lparr>logger := logger c @ [LogDebugf ''New watcher event %s for %s'' [action, ident]]\<rparr>
      in if action \<in> {''init'', ''create'', ''set'', ''update''} then
           onCaptureAdded D capture
             (c0\<lparr>wsServer := wsServer c0 @
                [BroadcastWSMessage (NewWSMessage ondemand_Namespace ''CaptureAdded'' (ObjCapture capture))]\<rparr>)
         else if action \<in> {''expire'', ''delete''} then
           onCaptureDeleted D capture
             (c0\<lparr>wsServer := wsServer c0 @
                [BroadcastWSMessage (NewWSMessage ondemand_Namespace ''CaptureDeleted'' (ObjCapture capture))]\<rparr>)
         else c0)"

section \<open>The TID mapper (\<^verbatim>\<open>topology/tid_mapper.go\<close>)\<close>

text \<open>
  The mapper writes metadata through pointers to nodes and reads it back, so here a
  pointer to a node is the identifier of the node and every read goes to the graph. A
  pointer the graph does not know reads nothing and the mapper leaves the graph as it is.
\<close>

text \<open>Modelled from the spec: identifiers are unique within the nodes, so the node of an
  identifier is the first one that has it.\<close>

definition nodeAt :: "Graph \<Rightarrow> Identifier \<Rightarrow> Node option" where
  "nodeAt g i = find (\<lambda>n. ID n = i) (g_nodes g)"

text \<open>Modelled from the spec: \<^verbatim>\<open>Graph.AddMetadata(node, key, value)\<close> sets the key of the
  node's metadata. It also notifies the listeners of the graph; the mapper, notified of its
  own write, finds the TID and does nothing.\<close>

definition AddMetadata :: "Graph \<Rightarrow> Identifier \<Rightarrow> string \<Rightarrow> mvalue \<Rightarrow> Graph" where
  "AddMetadata g i k v =
     g\<lparr>g_nodes := map (\<lambda>n. if ID n = i then n\<lparr>metadata := map_store k v (metadata n)\<rparr> else n)
                      (g_nodes g)\<rparr>"

text \<open>The name of \<^verbatim>\<open>uuid.NamespaceOID\<close>, as RFC 4122 gives it.\<close>

definition NamespaceOID :: string where
  "NamespaceOID = ''6ba7b812-9dad-11d1-80b4-00c04fd430c8''"

record TIDMapper =
  GraphOf :: Graph
  hostID :: Identifier
  tlog :: "log_entry list"

definition ownership :: Metadata where
  "ownership = [(''RelationType'', MValue (VString ''ownership''))]"

definition setTID :: "Externals \<Rightarrow> TIDMapper \<Rightarrow> Identifier \<Rightarrow> Identifier \<Rightarrow> TIDMapper" where
  "setTID X t prnt chld =
     (case nodeAt (GraphOf t) chld of
        None \<Rightarrow> t
      | Some c \<Rightarrow>
          (let tp = GetFieldString0 c ''Type'' in
           if tp = [] then t
           else let name = GetFieldString0 c ''Name'' in
             if name = [] then t
             else (case nodeAt (GraphOf t) prnt of
                     None \<Rightarrow> t
                   | Some p \<Rightarrow>
                       (let tid = GetFieldString0 p ''TID'' in
                        if tid \<noteq> []
                        then t\<lparr>GraphOf := AddMetadata (GraphOf t) chld ''TID''
                                  (VString (NewV5 X NamespaceOID (tid @ name @ tp)))\<rparr>
                        else t))))"

definition setChildrenTID :: "Externals \<Rightarrow> TIDMapper \<Rightarrow> Identifier \<Rightarrow> TIDMapper" where
  "setChildrenTID X t prnt =
     (case nodeAt (GraphOf t) prnt of
        None \<Rightarrow> t
      | Some p \<Rightarrow>
          fold (\<lambda>c t'. setTID X t' prnt (ID c))
               (LookupChildren X (GraphOf t) p [] ownership) t)"

definition TID_onNodeEvent :: "Externals \<Rightarrow> TIDMapper \<Rightarrow> Identifier \<Rightarrow> TIDMapper" where
  "TID_onNodeEvent X t n =
     (case nodeAt (GraphOf t) n of
        None \<Rightarrow> t
      | Some node \<Rightarrow>
          (case GetFieldString node ''TID'' of
             Inr _ \<Rightarrow> t
           | Inl _ \<Rightarrow>
               (case GetFieldString node ''Type'' of
                  Inl _ \<Rightarrow> t
                | Inr tp \<Rightarrow>
                    if tp = ''host'' then
                      setChildrenTID X
                        (t\<lparr>hostID := n, GraphOf := AddMetadata (GraphOf t) n ''TID'' (VString n)\<rparr>) n
                    else if tp = ''netns'' then
                      (let path = GetFieldString0 node ''Path'' in
                       if path \<noteq> []
                       then setChildrenTID X
                              (t\<lparr>GraphOf := AddMetadata (GraphOf t) n ''TID''
                                   (VString (NewV5 X NamespaceOID (hostID t @ path @ tp)))\<rparr>) n
                       else t)
                    else if tp = ''ovsport'' then
                      (let u = GetFieldString0 node ''UUID'' in
                       if u \<noteq> []
                       then setChildrenTID X
                              (t\<lparr>GraphOf := AddMetadata (GraphOf t) n ''TID''
                                   (VString (NewV5 X NamespaceOID (hostID t @ u @ tp)))\<rparr>) n
                       else t)
                    else if GetFieldString0 node ''Probe'' = ''fabric'' then
                      t\<lparr>GraphOf := AddMetadata (GraphOf t) n ''TID'' (VString n)\<rparr>
                    else
                      (let parents = LookupParents X (GraphOf t) node [] ownership in
                       if length parents > 1 then
                         t\<lparr>tlog := tlog t @
                              [LogErrorf ''A should always only have one ownership parent: %v'' [n]]\<rparr>
                       else if length parents = 1 then setTID X t (ID (hd parents)) n
                       else t))))"

definition TID_OnNodeUpdated :: "Externals \<Rightarrow> TIDMapper \<Rightarrow> Identifier \<Rightarrow> TIDMapper" where
  "TID_OnNodeUpdated X t n = TID_onNodeEvent X t n"

definition TID_OnNodeAdded :: "Externals \<Rightarrow> TIDMapper \<Rightarrow> Identifier \<Rightarrow> TIDMapper" where
  "TID_OnNodeAdded X t n = TID_onNodeEvent X t n"

definition TID_onEdgeEvent :: "Externals \<Rightarrow> TIDMapper \<Rightarrow> Edge \<Rightarrow> TIDMapper" where
  "TID_onEdgeEvent X t e =
     (if GetFieldString0 e ''RelationType'' \<noteq> ''ownership'' then t
      else let (parents, children) = GetEdgeNodes X (GraphOf t) e [] [] in
        if length parents = 0 \<or> length children = 0 then t
        else setTID X t (ID (hd parents)) (ID (hd children)))"

text \<open>The TID a node carries, as \<^verbatim>\<open>GetFieldString("TID")\<close> reads it.\<close>

definition TID_of :: "Graph \<Rightarrow> Identifier \<Rightarrow> string option" where
  "TID_of g n =
     (case nodeAt g n of
        None \<Rightarrow> None
      | Some node \<Rightarrow> (case GetFieldString node ''TID'' of Inl _ \<Rightarrow> None | Inr s \<Rightarrow> Some s))"

text \<open>The TID of a network namespace: a function of the UUID algorithm, the host
  identifier and the path only.\<close>

definition netnsTID :: "Externals \<Rightarrow> Identifier \<Rightarrow> string \<Rightarrow> string" where
  "netnsTID X h path = NewV5 X NamespaceOID (h @ path @ ''netns'')"

section \<open>Notions used in the statements\<close>

text \<open>An iterator without an upper bound that admits every element from now on, as
  \<^verbatim>\<open>NewIterator()\<close> is.\<close>

definition unbounded :: "Iterator \<Rightarrow> bool" where
  "unbounded it = (it_to it = None \<and> it_from it \<le> it_at it)"

text \<open>No pagination range is set in the step context a step points to.\<close>

definition noPaginationRange :: "'a stepFields_scheme \<Rightarrow> bool" where
  "noPaginationRange st =
     (case GraphTraversal st of
        None \<Rightarrow> True
      | Some t \<Rightarrow> PaginationRange (currentStepContext t) = None)"

text \<open>The reference of pagination on one sequence: each element passes through the
  iterator, which counts it and admits it or not, until the iterator is done.\<close>

fun paginate :: "Iterator \<Rightarrow> 'a list \<Rightarrow> 'a list" where
  "paginate it [] = []"
| "paginate it (x # xs) =
     (if Done it then []
      else (if fst (Next it) then [x] else []) @ paginate (snd (Next it)) xs)"

text \<open>The nodes a list of query values holds, single nodes and the nodes of paths, in
  order; and the call that starts a capture on a node.\<close>

fun targets :: "gvalue list \<Rightarrow> Node list" where
  "targets [] = []"
| "targets (GNode n # vs) = n # targets vs"
| "targets (GPath ns # vs) = ns @ targets vs"
| "targets (v # vs) = targets vs"

definition CaptureStartTo :: "Capture \<Rightarrow> Node \<Rightarrow> ws_call" where
  "CaptureStartTo capture n =
     SendWSMessageTo
       (NewWSMessage ondemand_Namespace ''CaptureStart''
          (ObjCaptureQuery \<lparr>NodeID = ID n, CaptureOf = capture\<rparr>)) (host n)"

text \<open>A node step, or an edge step, that holds no element if it carries an error (or the
  step panicked).\<close>

definition emptyIfErrored :: "go_panic + GraphTraversalV \<Rightarrow> bool" where
  "emptyIfErrored r =
     (case r of Inl p \<Rightarrow> True | Inr tv \<Rightarrow> error tv = None \<or> nodes tv = [])"

definition emptyIfErroredE :: "go_panic + GraphTraversalE \<Rightarrow> bool" where
  "emptyIfErroredE r =
     (case r of Inl p \<Rightarrow> True | Inr te \<Rightarrow> error te = None \<or> edges te = [])"

section \<open>Concrete inputs\<close>

text \<open>Two bridges of one agent; a probe is already bound to the first.\<close>

definition nodeA :: Node where
  "nodeA = \<lparr>ID = ''A'', host = ''agent-1'',
            metadata = [(''Type'', VString ''ovsbridge''), (''Capture/ID'', VString ''c0'')]\<rparr>"

definition nodeB :: Node where
  "nodeB = \<lparr>ID = ''B'', host = ''agent-1'', metadata = [(''Type'', VString ''ovsbridge'')]\<rparr>"

definition capture1 :: Capture where
  "capture1 = \<lparr>UUID = ''c1'', GremlinQuery = ''G.V().Has('Type','ovsbridge')'', Parameters = []\<rparr>"

text \<open>A query evaluation that resolves to every node of the graph, and a bus that
  delivers every message.\<close>

definition deps1 :: ClientDeps where
  "deps1 = \<lparr>ExecuteGremlinQuery = (\<lambda>g q. Inr (StepV (NewV None (g_nodes g)))),
            Delivered = (\<lambda>m h. True)\<rparr>"

definition client1 :: OnDemandProbeClient where
  "client1 = \<lparr>graph = \<lparr>g_nodes = [nodeA, nodeB], g_edges = []\<rparr>, captures = [],
              elector = True, wsServer = [], logger = [], goroutines = []\<rparr>"

text \<open>The same client on an analyzer that is not the leader.\<close>

definition client0 :: OnDemandProbeClient where
  "client0 = client1\<lparr>elector := False\<rparr>"

text \<open>
  An instance of the collaborators: a graph kept in memory whose lookups compare plain
  values and evaluate the term, comparison and boolean filters (no regular expressions),
  a path search of one hop, which is enough for the graphs below, a graph without
  history, a polynomial hash, and a UUID that is written out instead of hashed.
\<close>

fun eval1 :: "Filter \<Rightarrow> Node \<Rightarrow> bool" where
  "eval1 (TermStringFilter k s) n = (GetField n k = Some (VString s))"
| "eval1 (TermInt64Filter k i) n = (GetField n k = Some (VInt64 i))"
| "eval1 (LtInt64Filter k i) n = (case GetField n k of Some (VInt64 x) \<Rightarrow> x < i | _ \<Rightarrow> False)"
| "eval1 (GtInt64Filter k i) n = (case GetField n k of Some (VInt64 x) \<Rightarrow> x > i | _ \<Rightarrow> False)"
| "eval1 (LteInt64Filter k i) n = (case GetField n k of Some (VInt64 x) \<Rightarrow> x \<le> i | _ \<Rightarrow> False)"
| "eval1 (GteInt64Filter k i) n = (case GetField n k of Some (VInt64 x) \<Rightarrow> x \<ge> i | _ \<Rightarrow> False)"
| "eval1 (RegexFilter k p) n = False"
| "eval1 (NotFilter f) n = (\<not> eval1 f n)"
| "eval1 (AndFilter fs) n = list_all (\<lambda>f. eval1 f n) fs"
| "eval1 (OrFilter fs) n = list_ex (\<lambda>f. eval1 f n) fs"

definition matches1 :: "'a graphElement_scheme \<Rightarrow> Metadata \<Rightarrow> bool" where
  "matches1 el m =
     list_all (\<lambda>kf. case snd kf of
                       MValue v \<Rightarrow> GetField el (fst kf) = Some v
                     | MFilter f \<Rightarrow> eval1 f \<lparr>ID = ID el, host = host el, metadata = metadata el\<rparr>) m"

definition children1 :: "Graph \<Rightarrow> Node \<Rightarrow> Metadata \<Rightarrow> Metadata \<Rightarrow> Node list" where
  "children1 g n nm em =
     filter (\<lambda>c. matches1 c nm \<and>
                 list_ex (\<lambda>e. parent e = ID n \<and> child e = ID c \<and> matches1 e em) (g_edges g))
            (g_nodes g)"

definition parents1 :: "Graph \<Rightarrow> Node \<Rightarrow> Metadata \<Rightarrow> Metadata \<Rightarrow> Node list" where
  "parents1 g n nm em =
     filter (\<lambda>p. matches1 p nm \<and>
                 list_ex (\<lambda>e. parent e = ID p \<and> child e = ID n \<and> matches1 e em) (g_edges g))
            (g_nodes g)"

definition path1 :: "Graph \<Rightarrow> Node \<Rightarrow> Metadata \<Rightarrow> Metadata \<Rightarrow> Node list" where
  "path1 g n m e =
     (if matches1 n m then [n]
      else case filter (\<lambda>p. matches1 p m) (parents1 g n [] e @ children1 g n [] e) of
             [] \<Rightarrow> []
           | p # _ \<Rightarrow> [n, p])"

fun hashString :: "string \<Rightarrow> 64 word" where
  "hashString [] = 5381"
| "hashString (c # cs) = hashString cs * 33 + of_char c"

fun hashValue :: "mvalue \<Rightarrow> 64 word" where
  "hashValue (VString s) = hashString s"
| "hashValue (VInt64 i) = word_of_int i"
| "hashValue (VBool b) = of_bool b"
| "hashValue (VFloat64 w) = w"
| "hashValue (VMap m) = 0"

definition externals1 :: Externals where
  "externals1 =
     \<lparr>GetNode = nodeAt,
      GetNodes = (\<lambda>g m. filter (\<lambda>n. matches1 n m) (g_nodes g)),
      GetNodeEdges = (\<lambda>g n m. filter (\<lambda>e. (parent e = ID n \<or> child e = ID n) \<and> matches1 e m)
                                (g_edges g)),
      GetEdgeNodes = (\<lambda>g e pm cm.
                        (filter (\<lambda>n. ID n = parent e \<and> matches1 n pm) (g_nodes g),
                         filter (\<lambda>n. ID n = child e \<and> matches1 n cm) (g_nodes g))),
      LookupChildren = children1,
      LookupParents = parents1,
      LookupShortestPath = path1,
      WithContext = (\<lambda>g ts. Inr g),
      Eval = eval1,
      MatchMetadata = matches1,
      ToInt64 = (\<lambda>p. case p of PInt64 i \<Rightarrow> Inr i | PInt i \<Rightarrow> Inr i
                             | _ \<Rightarrow> Inl (ErrorNew ''not an integer'')),
      ToFloat64 = (\<lambda>i. Inl (ErrorNew ''no floating point here'')),
      FloatAdd = (\<lambda>a b. a),
      Hash = (\<lambda>vs. (foldr (\<lambda>v h. h * 31 + hashValue v) vs 17, None)),
      Compile = (\<lambda>s. if s = ''('' then Inl (ErrorNew ''missing closing )'') else Inr (Regexp s)),
      NewV5 = (\<lambda>ns d. ns @ '':'' @ d),
      Now = 1478000000000000000\<rparr>"

definition hostNode :: Node where
  "hostNode = \<lparr>ID = ''host-1'', host = ''host-1'',
               metadata = [(''Name'', VString ''host-1''), (''Type'', VString ''host''),
                           (''TID'', VString ''host-1'')]\<rparr>"

definition netnsNode :: Node where
  "netnsNode = \<lparr>ID = ''N'', host = ''host-1'',
                metadata = [(''Name'', VString ''x''), (''Type'', VString ''netns''),
                            (''Path'', VString ''/var/run/netns/x'')]\<rparr>"

definition bridgeNode :: Node where
  "bridgeNode = \<lparr>ID = ''BR'', host = ''host-1'',
                 metadata = [(''Name'', VString ''br-int''), (''Type'', VString ''ovsbridge''),
                             (''TID'', VString ''tid-of-br-int'')]\<rparr>"

definition vethNode :: Node where
  "vethNode = \<lparr>ID = ''V'', host = ''host-1'',
               metadata = [(''Name'', VString ''eth0''), (''Type'', VString ''veth'')]\<rparr>"

definition owns :: "Identifier \<Rightarrow> Identifier \<Rightarrow> Identifier \<Rightarrow> Edge" where
  "owns i p c = \<lparr>ID = i, host = ''host-1'',
                 metadata = [(''RelationType'', VString ''ownership'')], parent = p, child = c\<rparr>"

definition graph1 :: Graph where
  "graph1 = \<lparr>g_nodes = [hostNode, netnsNode], g_edges = [owns ''e1'' ''host-1'' ''N'']\<rparr>"

definition graph2 :: Graph where
  "graph2 = \<lparr>g_nodes = [hostNode, bridgeNode, vethNode],
             g_edges = [owns ''e1'' ''host-1'' ''BR'', owns ''e2'' ''host-1'' ''V'',
                        owns ''e3'' ''BR'' ''V'']\<rparr>"

definition mapper1 :: TIDMapper where
  "mapper1 = \<lparr>GraphOf = graph1, hostID = ''host-1'', tlog = []\<rparr>"

definition mapper2 :: TIDMapper where
  "mapper2 = \<lparr>GraphOf = graph2, hostID = ''host-1'', tlog = []\<rparr>"

text \<open>A query that reached the step \<^verbatim>\<open>Has()\<close> without arguments.\<close>

definition err0 :: error where
  "err0 = ErrorNew ''At least one parameter must be provided''"

definition toHost :: Metadata where
  "toHost = [(''Type'', MValue (VString ''host''))]"

definition paged :: GraphTraversal where
  "paged = \<lparr>error = None, Graph = Some graph2,
            currentStepContext = \<lparr>PaginationRange = Some (0, 1)\<rparr>\<rparr>"

section \<open>Properties of the on-demand probe client\<close>

lemma nodeA_bound: "hasCaptureID nodeA"
  by (simp add: hasCaptureID_def nodeA_def GetFieldString_def GetField_def)

lemma nodeB_unbound: "\<not> hasCaptureID nodeB"
  by (simp add: hasCaptureID_def nodeB_def GetFieldString_def GetField_def)

lemma registerProbes_bound_first:
  "hasCaptureID node \<Longrightarrow> registerProbes D (GNode node # rest) capture c = c"
  by simp

text \<open>When no resolved node carries \<^verbatim>\<open>Capture/ID\<close>, \<^verbatim>\<open>registerProbes\<close> sends one
  \<^verbatim>\<open>CaptureStart\<close> per node, in order, each to the host of its node.\<close>

lemma wsServer_registerProbe:
  "wsServer (snd (registerProbe D (ID n) (host n) capture c)) =
     wsServer c @ [CaptureStartTo capture n]"
  by (simp add: registerProbe_def CaptureStartTo_def Let_def)

lemma registerProbes_path_unbound:
  "list_all (\<lambda>n. \<not> hasCaptureID n) ns \<Longrightarrow>
   \<exists>c'. registerProbes_path D ns capture c = Continue c' \<and>
        wsServer c' = wsServer c @ map (CaptureStartTo capture) ns"
proof (induction ns arbitrary: c)
  case Nil
  then show ?case by simp
next
  case (Cons n ns)
  from Cons.prems have u: "\<not> hasCaptureID n" "list_all (\<lambda>n. \<not> hasCaptureID n) ns" by simp_all
  from Cons.IH [OF u(2), of "snd (registerProbe D (ID n) (host n) capture c)"]
  show ?case using u(1) by (auto simp: wsServer_registerProbe)
qed

lemma registerProbes_unbound:
  "list_all (\<lambda>n. \<not> hasCaptureID n) (targets vs) \<Longrightarrow>
   wsServer (registerProbes D vs capture c) = wsServer c @ map (CaptureStartTo capture) (targets vs)"
proof (induction vs arbitrary: c rule: targets.induct)
  case 1
  then show ?case by simp
next
  case (2 n vs)
  then show ?case by (simp add: wsServer_registerProbe)
next
  case (3 ns vs)
  from 3(2) have u: "list_all (\<lambda>n. \<not> hasCaptureID n) ns"
    "list_all (\<lambda>n. \<not> hasCaptureID n) (targets vs)" by simp_all
  from registerProbes_path_unbound [OF u(1), of D capture c]
  obtain c' where c': "registerProbes_path D ns capture c = Continue c'"
    "wsServer c' = wsServer c @ map (CaptureStartTo capture) ns" by blast
  show ?case using c' 3(1) [OF u(2), of c'] by simp
qed simp_all

text \<open>
  C1. The claim: \<^verbatim>\<open>registerProbes\<close> issues a \<^verbatim>\<open>CaptureStart\<close> for every resolved node
  without \<^verbatim>\<open>Capture/ID\<close>, and a node that carries \<^verbatim>\<open>Capture/ID\<close> is skipped without
  preventing the \<^verbatim>\<open>CaptureStart\<close> of the others. The source returns from
  \<^verbatim>\<open>registerProbes\<close> at the first node that carries \<^verbatim>\<open>Capture/ID\<close>: the capture resolves
  to the bound node A and the unbound node B, \<^verbatim>\<open>onCaptureAdded\<close> starts
  \<^verbatim>\<open>registerProbes\<close> on the two, and nothing is sent, whereas with B first B gets its
  \<^verbatim>\<open>CaptureStart\<close>.
\<close>

theorem registerProbes_returns_at_bound_node:
  "hasCaptureID nodeA \<and> \<not> hasCaptureID nodeB \<and>
   goroutines (onCaptureAdded deps1 capture1 client1) = [([GNode nodeA, GNode nodeB], capture1)] \<and>
   wsServer (registerProbes deps1 [GNode nodeA, GNode nodeB] capture1 client1) = [] \<and>
   wsServer (registerProbes deps1 [GNode nodeB, GNode nodeA] capture1 client1) =
     [SendWSMessageTo
        (NewWSMessage ondemand_Namespace ''CaptureStart''
           (ObjCaptureQuery \<lparr>NodeID = ''B'', CaptureOf = capture1\<rparr>)) ''agent-1'']"
  apply (simp add: nodeA_bound nodeB_unbound registerProbe_def Let_def)
  apply (simp add: onCaptureAdded_def applyGremlinExpr_def go_registerProbes_def deps1_def
      client1_def V_Values_def NewV_def Let_def nodeB_def)
  done

text \<open>
  C2, the claim as stated fails: on an analyzer that is not the leader, the watcher event
  \<open>create\<close> still broadcasts \<^verbatim>\<open>CaptureAdded\<close>, since \<^verbatim>\<open>onAPIWatcherEvent\<close> broadcasts
  before \<^verbatim>\<open>onCaptureAdded\<close> asks \<^verbatim>\<open>IsMaster()\<close>.
\<close>

theorem non_master_broadcast_counterexample:
  "\<not> elector client0 \<and>
   wsServer (onAPIWatcherEvent deps1 ''create'' ''c1'' capture1 client0) =
     [BroadcastWSMessage (NewWSMessage ondemand_Namespace ''CaptureAdded'' (ObjCapture capture1))]"
  by (simp add: client0_def client1_def onAPIWatcherEvent_def onCaptureAdded_def Let_def)

text \<open>
  C2, amended. When \<^verbatim>\<open>IsMaster()\<close> is false at the time of handling: a graph event
  (\<^verbatim>\<open>OnNodeAdded\<close>, \<^verbatim>\<open>OnNodeUpdated\<close>, \<^verbatim>\<open>OnEdgeAdded\<close>) changes nothing, so no message
  is sent; a watcher event leaves the graph and the capture mapping as they are, starts no
  \<^verbatim>\<open>registerProbes\<close>, and the only call on the bus is the broadcast of \<^verbatim>\<open>CaptureAdded\<close>
  (actions init, create, set, update) or of \<^verbatim>\<open>CaptureDeleted\<close> (actions expire, delete):
  no \<^verbatim>\<open>CaptureStart\<close> and no \<^verbatim>\<open>CaptureStop\<close> is sent.
\<close>

theorem non_master_quiescence:
  assumes "\<not> elector c"
  shows "onNodeEvent D c = c \<and> OnNodeAdded D n c = c \<and> OnNodeUpdated D n c = c \<and>
         OnEdgeAdded D e c = c \<and>
         graph (onAPIWatcherEvent D action ident capture c) = graph c \<and>
         captures (onAPIWatcherEvent D action ident capture c) = captures c \<and>
         goroutines (onAPIWatcherEvent D action ident capture c) = goroutines c \<and>
         wsServer (onAPIWatcherEvent D action ident capture c) =
           wsServer c @
           (if action \<in> {''init'', ''create'', ''set'', ''update''}
            then [BroadcastWSMessage (NewWSMessage ondemand_Namespace ''CaptureAdded'' (ObjCapture capture))]
            else if action \<in> {''expire'', ''delete''}
            then [BroadcastWSMessage (NewWSMessage ondemand_Namespace ''CaptureDeleted'' (ObjCapture capture))]
            else [])"
  using assms
  by (simp add: onNodeEvent_def OnNodeAdded_def OnNodeUpdated_def OnEdgeAdded_def
      onAPIWatcherEvent_def onCaptureAdded_def onCaptureDeleted_def Let_def)

theorem non_master_quiescence_witness:
  "\<not> elector client0 \<and>
   onNodeEvent deps1 client0 = client0 \<and>
   goroutines (onAPIWatcherEvent deps1 ''delete'' ''c1'' capture1 client0) = [] \<and>
   wsServer (onAPIWatcherEvent deps1 ''delete'' ''c1'' capture1 client0) =
     [BroadcastWSMessage (NewWSMessage ondemand_Namespace ''CaptureDeleted'' (ObjCapture capture1))]"
proof -
  have h: "\<not> elector client0" by (simp add: client0_def client1_def)
  from non_master_quiescence [OF h, where D = deps1 and action = "''delete''"
      and ident = "''c1''" and capture = capture1]
  moreover have "goroutines client0 = []" "wsServer client0 = []"
    by (simp_all add: client0_def client1_def)
  ultimately show ?thesis using h by simp
qed

section \<open>Properties of the traversal steps\<close>

subsection \<open>Sticky errors\<close>

text \<open>
  C3, the claim as stated fails. A query that ends in \<^verbatim>\<open>Count()\<close> after a step that
  failed gives a value step that carries the error, and \<^verbatim>\<open>Values()\<close> on it returns one
  element, the nil value, not the empty sequence: \<^verbatim>\<open>GraphTraversalValue.Values\<close> wraps
  whatever is not a \<^verbatim>\<open>[]interface{}\<close>. And \<^verbatim>\<open>Limit()\<close> without its argument on a node
  step that carries an error panics, since it reads \<^verbatim>\<open>s[0]\<close> before \<^verbatim>\<open>Range\<close> looks
  at the error.
\<close>

theorem errored_value_step_counterexample:
  "error (V_Count (V_error err0) []) = Some err0 \<and>
   Value_Values (V_Count (V_error err0) []) = [GNil] \<and>
   V_Limit (V_error err0) [] = Inl IndexOutOfRange"
  by (simp add: V_Count_def V_error_def Value_error_def Value_Values_def V_Limit_def)

text \<open>Every node step and every edge step that a step of the source returns holds no
  element if it carries an error, provided the step it was applied to does; so
  \<^verbatim>\<open>Values()\<close> on it is empty.\<close>

lemma emptyIfErrored_new [simp]:
  "emptyIfErrored (Inl p)" "emptyIfErrored (Inr (NewV gt ns))" "emptyIfErrored (Inr (V_error err))"
  by (simp_all add: emptyIfErrored_def NewV_def V_error_def)

lemma emptyIfErrored_V: "emptyIfErrored (V X t s)"
  by (simp add: V_def split: option.split sum.split)

lemma emptyIfErrored_Dedup: "emptyIfErrored (Inr tv) \<Longrightarrow> emptyIfErrored (V_Dedup X tv s)"
  by (simp add: V_Dedup_def split: option.split sum.split)

lemma emptyIfErrored_hasKey: "emptyIfErrored (Inr tv) \<Longrightarrow> emptyIfErrored (Inr (V_hasKey tv k))"
  by (simp add: V_hasKey_def)


lemma emptyIfErrored_Both: "emptyIfErrored (Inr tv) \<Longrightarrow> emptyIfErrored (Both X tv s)"
  by (simp add: Both_def split: sum.split)

lemma emptyIfErrored_Out: "emptyIfErrored (Inr tv) \<Longrightarrow> emptyIfErrored (Out X tv s)"
  by (simp add: Out_def split: sum.split)

lemma emptyIfErrored_In: "emptyIfErrored (Inr tv) \<Longrightarrow> emptyIfErrored (In X tv s)"
  by (simp add: In_def split: sum.split)



lemma emptyIfErrored_InV: "emptyIfErrored (InV X te s)"
  by (simp add: InV_def split: option.split sum.split)

lemma emptyIfErrored_OutV: "emptyIfErrored (OutV X te s)"
  by (simp add: OutV_def split: option.split sum.split)

lemma emptyIfErrored_Values:
  "emptyIfErrored (Inr tv) \<Longrightarrow> error tv = Some err \<Longrightarrow> V_Values tv = []"
  by (simp add: emptyIfErrored_def V_Values_def)

lemma case_PInt64_other:
  "\<forall>i. a \<noteq> PInt64 i \<Longrightarrow> (case a of PInt64 i \<Rightarrow> f i | _ \<Rightarrow> d) = d"
  by (cases a) simp_all

lemma case_PString_other:
  "\<forall>k. a \<noteq> PString k \<Longrightarrow> (case a of PString k \<Rightarrow> f k | _ \<Rightarrow> d) = d"
  by (cases a) simp_all

lemma V_Range_arity:
  "error tv = None \<Longrightarrow> length s \<noteq> 2 \<Longrightarrow>
   V_Range tv s = Inr (V_error (ErrorNew
                          (''2 parameters must be provided to 'range'' @ [CHR 0x27])))"
proof -
  assume e: "error tv = None" and l: "length s \<noteq> 2"
  show ?thesis
  proof (cases s)
    case Nil
    with e show ?thesis by (simp add: V_Range_def)
  next
    case (Cons a s1)
    show ?thesis
    proof (cases s1)
      case Nil
      with e Cons show ?thesis by (simp add: V_Range_def)
    next
      case c2: (Cons b s2)
      show ?thesis
      proof (cases s2)
        case Nil
        with l Cons c2 show ?thesis by simp
      next
        case c3: (Cons c s3)
        with e Cons c2 show ?thesis by (simp add: V_Range_def)
      qed
    qed
  qed
qed

lemma emptyIfErrored_Range: "emptyIfErrored (V_Range tv s)"
proof (cases "error tv")
  case (Some e)
  then show ?thesis by (simp add: V_Range_def)
next
  case None
  show ?thesis
  proof (cases "length s = 2")
    case False
    with None show ?thesis by (simp add: V_Range_arity)
  next
    case True
    then obtain a b where s: "s = [a, b]"
      by (auto simp: length_Suc_conv numeral_2_eq_2)
    show ?thesis
    proof (cases "\<exists>i. a = PInt64 i")
      case False
      then show ?thesis using None s by (simp add: V_Range_def case_PInt64_other)
    next
      case True
      then obtain i where a: "a = PInt64 i" by blast
      show ?thesis
      proof (cases "\<exists>j. b = PInt64 j")
        case False
        then show ?thesis using None s a by (simp add: V_Range_def case_PInt64_other)
      next
        case True
        then obtain j where "b = PInt64 j" by blast
        then show ?thesis using None s a by (simp add: V_Range_def split: sum.split)
      qed
    qed
  qed
qed

lemma emptyIfErrored_Limit: "emptyIfErrored (V_Limit tv s)"
  by (simp add: V_Limit_def emptyIfErrored_Range split: list.split)

lemma emptyIfErrored_Has: "emptyIfErrored (Inr tv) \<Longrightarrow> emptyIfErrored (V_Has X tv s)"
proof (cases "error tv \<noteq> None")
  case True
  assume "emptyIfErrored (Inr tv)"
  with True show ?thesis by (simp add: V_Has_def)
next
  case noerr: False
  show ?thesis
  proof (cases s)
    case Nil
    with noerr show ?thesis by (simp add: V_Has_def)
  next
    case (Cons p s1)
    show ?thesis
    proof (cases s1)
      case (Cons q s2)
      with noerr \<open>s = p # s1\<close> show ?thesis by (simp add: V_Has_def split: sum.split)
    next
      case Nil
      show ?thesis
      proof (cases "\<exists>k. p = PString k")
        case True
        then obtain k where "p = PString k" by blast
        with noerr Nil \<open>s = p # s1\<close> show ?thesis
          by (simp add: V_Has_def V_hasKey_def)
      next
        case False
        with noerr Nil \<open>s = p # s1\<close> show ?thesis
          by (simp add: V_Has_def case_PString_other)
      qed
    qed
  qed
qed

lemma emptyIfErroredE_new [simp]:
  "emptyIfErroredE (Inl p)" "emptyIfErroredE (Inr (NewE gt es))"
  "emptyIfErroredE (Inr (E_error err))"
  "emptyIfErroredE (Inr \<lparr>error = e, GraphTraversal = gt, edges = []\<rparr>)"
  by (simp_all add: emptyIfErroredE_def NewE_def E_error_def)

lemma emptyIfErroredE_OutE: "emptyIfErroredE (OutE X tv s)"
  by (simp add: OutE_def split: option.split sum.split)

lemma emptyIfErroredE_InE: "emptyIfErroredE (InE X tv s)"
  by (simp add: InE_def split: option.split sum.split)

lemma emptyIfErroredE_Dedup: "emptyIfErroredE (Inr te) \<Longrightarrow> emptyIfErroredE (E_Dedup te s)"
  by (simp add: E_Dedup_def split: option.split sum.split)

lemma emptyIfErroredE_hasKey: "emptyIfErroredE (Inr te) \<Longrightarrow> emptyIfErroredE (E_hasKey te k)"
  by (simp add: E_hasKey_def split: sum.split)

lemma E_Range_arity:
  assumes "error te = None" and "length s \<noteq> 2"
  shows "E_Range te s =
           Inr \<lparr>error = Some (ErrorNew (''2 parameters must be provided to 'range'' @ [CHR 0x27])),
                GraphTraversal = GraphTraversal te, edges = []\<rparr>"
proof (cases s)
  case Nil
  with assms show ?thesis by (simp add: E_Range_def)
next
  case (Cons a s1)
  show ?thesis
  proof (cases s1)
    case Nil
    with assms Cons show ?thesis by (simp add: E_Range_def)
  next
    case c2: (Cons b s2)
    show ?thesis
    proof (cases s2)
      case Nil
      with assms Cons c2 show ?thesis by simp
    next
      case c3: (Cons c s3)
      with assms Cons c2 show ?thesis by (simp add: E_Range_def)
    qed
  qed
qed

lemma emptyIfErroredE_Range: "emptyIfErroredE (Inr te) \<Longrightarrow> emptyIfErroredE (E_Range te s)"
proof (cases "error te")
  case (Some e)
  assume "emptyIfErroredE (Inr te)"
  with Some show ?thesis by (simp add: E_Range_def)
next
  case None
  show ?thesis
  proof (cases "length s = 2")
    case False
    with None show ?thesis by (simp add: E_Range_arity)
  next
    case True
    then obtain a b where s: "s = [a, b]"
      by (auto simp: length_Suc_conv numeral_2_eq_2)
    show ?thesis
    proof (cases "\<exists>i. a = PInt64 i")
      case False
      then show ?thesis using None s by (simp add: E_Range_def case_PInt64_other)
    next
      case True
      then obtain i where a: "a = PInt64 i" by blast
      show ?thesis
      proof (cases "\<exists>j. b = PInt64 j")
        case False
        then show ?thesis using None s a by (simp add: E_Range_def case_PInt64_other)
      next
        case True
        then obtain j where "b = PInt64 j" by blast
        then show ?thesis using None s a by (simp add: E_Range_def split: sum.split)
      qed
    qed
  qed
qed

lemma emptyIfErroredE_Limit: "emptyIfErroredE (Inr te) \<Longrightarrow> emptyIfErroredE (E_Limit te s)"
  by (simp add: E_Limit_def emptyIfErroredE_Range split: list.split)

lemma emptyIfErroredE_Has: "emptyIfErroredE (Inr te) \<Longrightarrow> emptyIfErroredE (E_Has X te s)"
proof (cases "error te \<noteq> None")
  case True
  assume "emptyIfErroredE (Inr te)"
  with True show ?thesis by (simp add: E_Has_def)
next
  case noerr: False
  assume ok: "emptyIfErroredE (Inr te)"
  show ?thesis
  proof (cases s)
    case Nil
    with noerr show ?thesis by (simp add: E_Has_def)
  next
    case (Cons p s1)
    show ?thesis
    proof (cases s1)
      case (Cons q s2)
      with noerr \<open>s = p # s1\<close> show ?thesis by (simp add: E_Has_def split: sum.split)
    next
      case Nil
      show ?thesis
      proof (cases "\<exists>k. p = PString k")
        case True
        then obtain k where "p = PString k" by blast
        with noerr Nil \<open>s = p # s1\<close> emptyIfErroredE_hasKey [OF ok] show ?thesis
          by (simp add: E_Has_def)
      next
        case False
        with noerr Nil \<open>s = p # s1\<close> show ?thesis
          by (simp add: E_Has_def case_PString_other)
      qed
    qed
  qed
qed

lemma emptyIfErroredE_Values:
  "emptyIfErroredE (Inr te) \<Longrightarrow> error te = Some err \<Longrightarrow> E_Values te = []"
  by (simp add: emptyIfErroredE_def E_Values_def)

text \<open>
  C3, amended. On a step that carries an error, every step of the source (\<^verbatim>\<open>Limit\<close> on
  nodes given its argument) returns a step that carries the same error: the step itself,
  or a new step of the result type with nothing but the error. The result is the same for
  every graph and every collaborator, so no graph work is done. \<^verbatim>\<open>Values()\<close> on such a
  new node, edge or path step is empty; on a value step that carries an error it is the
  one-element sequence that holds nil, and on a \<^verbatim>\<open>GraphTraversal\<close> that carries an error
  the one-element sequence that holds the nil graph.
\<close>

theorem sticky_error:
  assumes "error gt = Some err" and "error tv = Some err" and "error te = Some err"
    and "error tval = Some err"
  shows "Context X gt s = Inr gt \<and> V X gt s = Inr (V_error err) \<and>
         PropertyValues tv s = Inr (Value_error err) \<and>
         PropertyKeys tv s = Inr (Value_error err) \<and>
         Sum X tv s = Inr (Value_error err) \<and>
         V_Dedup X tv s = Inr tv \<and>
         ShortestPathTo X tv m e = Inr (SP_error err) \<and>
         V_hasKey tv k = tv \<and>
         V_Has X tv s = Inr tv \<and>
         Both X tv s = Inr tv \<and>
         V_Count tv s = Value_error err \<and>
         V_Range tv s = Inr (V_error err) \<and>
         V_Limit tv (p # s) = Inr (V_error err) \<and>
         Out X tv s = Inr tv \<and>
         OutE X tv s = Inr (E_error err) \<and>
         In X tv s = Inr tv \<and>
         InE X tv s = Inr (E_error err) \<and>
         E_Count te s = Value_error err \<and>
         E_Range te s = Inr te \<and>
         E_Limit te s = Inr te \<and>
         E_Dedup te s = Inr te \<and>
         E_hasKey te k = Inr te \<and>
         E_Has X te s = Inr te \<and>
         InV X te s = Inr (V_error err) \<and>
         OutV X te s = Inr (V_error err) \<and>
         Value_Dedup tval s = Inr tval \<and>
         error (V_error err) = Some err \<and> V_Values (V_error err) = [] \<and>
         error (E_error err) = Some err \<and> E_Values (E_error err) = [] \<and>
         error (SP_error err) = Some err \<and> SP_Values (SP_error err) = [] \<and>
         error (Value_error err) = Some err \<and> Value_Values (Value_error err) = [GNil] \<and>
         error (G_error err) = Some err \<and> G_Values (G_error err) = [GGraph None]"
  using assms
  by (simp add: Context_def V_def PropertyValues_def PropertyKeys_def Sum_def V_Dedup_def
      ShortestPathTo_def V_hasKey_def V_Has_def Both_def V_Count_def V_Range_def V_Limit_def
      Out_def OutE_def In_def InE_def E_Count_def E_Range_def E_Limit_def E_Dedup_def
      E_hasKey_def E_Has_def InV_def OutV_def Value_Dedup_def
      V_Values_def E_Values_def SP_Values_def Value_Values_def G_Values_def
      V_error_def E_error_def SP_error_def Value_error_def G_error_def)

theorem sticky_error_witness:
  "V_Has externals1 (NewV (Some (NewGraphTraversal graph2)) [hostNode]) [] = Inr (V_error err0) \<and>
   Out externals1 (V_error err0) [] = Inr (V_error err0) \<and>
   OutE externals1 (V_error err0) [] = Inr (E_error err0) \<and>
   E_Dedup (E_error err0) [] = Inr (E_error err0) \<and>
   V_Count (V_error err0) [] = Value_error err0 \<and>
   V_Values (V_error err0) = [] \<and>
   Value_Values (Value_error err0) = [GNil]"
proof -
  have h1: "error (G_error err0) = Some err0" by (simp add: G_error_def)
  have h2: "error (V_error err0) = Some err0" by (simp add: V_error_def)
  have h3: "error (E_error err0) = Some err0" by (simp add: E_error_def)
  have h4: "error (Value_error err0) = Some err0" by (simp add: Value_error_def)
  have h5: "V_Has externals1 (NewV (Some (NewGraphTraversal graph2)) [hostNode]) [] =
      Inr (V_error err0)"
    by (simp add: V_Has_def NewV_def err0_def)
  from sticky_error [OF h1 h2 h3 h4, where X = externals1 and s = "[]"] h5
  show ?thesis by blast
qed

subsection \<open>The time context\<close>

lemma future_text: "sublist ''future'' ''Sorry, I can't predict the future''"
proof -
  have "''Sorry, I can't predict the future'' = ''Sorry, I can't predict the '' @ ''future'' @ []"
    by simp
  then show ?thesis unfolding sublist_def by blast
qed

text \<open>
  C4. On a traversal that carries no error, \<^verbatim>\<open>Context(at)\<close> and
  \<^verbatim>\<open>Context(at, duration)\<close> with \<open>at\<close> strictly after the current time return a traversal
  that carries the error "Sorry, I can't predict the future", whose text contains
  "future", and whose \<^verbatim>\<open>Graph\<close> is nil: it is bound to no graph, time-sliced or not. (On
  a traversal that already carries an error the step returns that traversal, as every step
  does.)
\<close>

theorem Context_future:
  assumes "error t = None" and "Now X < at"
  shows "Context X t [PTime at] = Inr (G_error (ErrorNew ''Sorry, I can't predict the future'')) \<and>
         Context X t [PTime at, PDuration d] =
           Inr (G_error (ErrorNew ''Sorry, I can't predict the future'')) \<and>
         (\<exists>r e txt. Context X t [PTime at] = Inr r \<and> error r = Some e \<and>
             error_text e = Some txt \<and> sublist ''future'' txt \<and> Graph r = None)"
proof -
  have a: "Context X t [PTime at] = Inr (G_error (ErrorNew ''Sorry, I can't predict the future''))"
    using assms by (simp add: Context_def)
  have b: "Context X t [PTime at, PDuration d] =
      Inr (G_error (ErrorNew ''Sorry, I can't predict the future''))"
    using assms by (simp add: Context_def)
  have c: "error (G_error (ErrorNew ''Sorry, I can't predict the future'')) =
      Some (ErrorNew ''Sorry, I can't predict the future'')"
    "Graph (G_error (ErrorNew ''Sorry, I can't predict the future'')) = None"
    by (simp_all add: G_error_def)
  show ?thesis using a b c future_text by simp
qed

text \<open>One hour after the current time of the instance.\<close>

theorem Context_future_witness:
  "Now externals1 < 1478003600000000000 \<and>
   Context externals1 (NewGraphTraversal graph1) [PTime 1478003600000000000] =
     Inr (G_error (ErrorNew ''Sorry, I can't predict the future'')) \<and>
   Graph (G_error (ErrorNew ''Sorry, I can't predict the future'')) = None"
proof -
  have h1: "error (NewGraphTraversal graph1) = None" by (simp add: NewGraphTraversal_def)
  have h2: "Now externals1 < 1478003600000000000" by (simp add: externals1_def)
  have h3: "Graph (G_error (ErrorNew ''Sorry, I can't predict the future'')) = None"
    by (simp add: G_error_def)
  from Context_future [OF h1 h2] h2 h3 show ?thesis by blast
qed

subsection \<open>Shortest paths\<close>

text \<open>The loop of \<^verbatim>\<open>ShortestPathTo\<close> looks a path up for every node of the sequence:
  nothing is ever put into \<^verbatim>\<open>visited\<close>.\<close>

lemma ShortestPathTo_loop_all:
  "ShortestPathTo_loop X (Some g) m e ns [] =
     Inr (filter (\<lambda>p. length p > 0) (map (\<lambda>n. LookupShortestPath X g n m e) ns))"
  by (induction ns) (simp_all add: Let_def)

text \<open>
  C7. The claim: duplicate sources are coalesced, at most one path per distinct source.
  The source declares \<^verbatim>\<open>visited\<close> and tests it, and never writes to it: for the sequence
  that holds the node V twice it returns the path from V to the host twice.
\<close>

theorem ShortestPathTo_keeps_duplicates:
  "remdups (map ID [vethNode, vethNode]) = [''V''] \<and>
   ShortestPathTo externals1 (NewV (Some (NewGraphTraversal graph2)) [vethNode, vethNode])
       toHost ownership =
     Inr \<lparr>error = None, GraphTraversal = Some (NewGraphTraversal graph2),
          paths = [ [vethNode, hostNode], [vethNode, hostNode] ]\<rparr>"
  by code_simp

subsection \<open>Pagination\<close>

text \<open>The loop body without \<^verbatim>\<open>Next\<close> appends everything or nothing; the loop body with
  \<^verbatim>\<open>Next\<close> paginates the concatenation of what the nodes produce, and under the range
  \<open>[from, to)\<close> that is the elements of index \<open>from\<close> to \<open>to - 1\<close>.\<close>

lemma appendUnlessDone_eq:
  "appendUnlessDone xs (acc, it) =
     (if xs \<noteq> [] \<and> Done it then Return (acc, it) else Continue (acc @ xs, it))"
  by (induction xs arbitrary: acc) auto

lemma nodeloop_appendUnlessDone:
  "nodeloop (\<lambda>n. appendUnlessDone (f n)) ns (acc, it) =
     (if Done it then acc else acc @ concat (map f ns))"
  by (induction ns arbitrary: acc) (auto simp: appendUnlessDone_eq)

lemma paginate_Done: "Done it \<Longrightarrow> paginate it xs = []"
  by (cases xs) simp_all

lemma countAndAppend_paginate:
  "\<exists>it'. (countAndAppend xs (acc, it) = Continue (acc @ paginate it xs, it') \<or>
          countAndAppend xs (acc, it) = Return (acc @ paginate it xs, it') \<and> Done it') \<and>
         (\<forall>ys. paginate it (xs @ ys) = paginate it xs @ paginate it' ys)"
proof (induction xs arbitrary: acc it)
  case Nil
  then show ?case by simp
next
  case (Cons x xs)
  show ?case
  proof (cases "Done it")
    case True
    then show ?thesis by (auto simp: paginate_Done)
  next
    case False
    obtain a it1 where n: "Next it = (a, it1)" by (cases "Next it")
    from Cons.IH [of "if a then acc @ [x] else acc" it1]
    show ?thesis using False n by auto
  qed
qed

lemma nodeloop_countAndAppend:
  "nodeloop (\<lambda>n. countAndAppend (f n)) ns (acc, it) = acc @ paginate it (concat (map f ns))"
proof (induction ns arbitrary: acc it)
  case Nil
  then show ?case by simp
next
  case (Cons n ns)
  from countAndAppend_paginate [of "f n" acc it]
  obtain it' where c:
    "countAndAppend (f n) (acc, it) = Continue (acc @ paginate it (f n), it') \<or>
     countAndAppend (f n) (acc, it) = Return (acc @ paginate it (f n), it') \<and> Done it'"
    and p: "\<And>ys. paginate it (f n @ ys) = paginate it (f n) @ paginate it' ys"
    by blast
  from c show ?case
  proof
    assume "countAndAppend (f n) (acc, it) = Continue (acc @ paginate it (f n), it')"
    then show ?thesis using Cons.IH [of "acc @ paginate it (f n)" it'] p by simp
  next
    assume "countAndAppend (f n) (acc, it) = Return (acc @ paginate it (f n), it') \<and> Done it'"
    then show ?thesis using p by (simp add: paginate_Done)
  qed
qed

lemma paginate_range:
  "paginate \<lparr>it_at = a, it_from = f, it_to = Some t\<rparr> xs =
     take (nat (t - max f a)) (drop (nat (f - a)) xs)"
proof (induction xs arbitrary: a)
  case Nil
  then show ?case by simp
next
  case (Cons x xs)
  show ?case
  proof (cases "t \<le> a")
    case True
    then show ?thesis by (simp add: Done_def)
  next
    case False
    show ?thesis
    proof (cases "f \<le> a")
      case True
      with False have "nat (t - a) = Suc (nat (t - (a + 1)))" by simp
      with True False Cons.IH [of "a + 1"] show ?thesis
        by (simp add: Done_def Next_def max_def)
    next
      case fa: False
      then have "nat (f - a) = Suc (nat (f - (a + 1)))" by simp
      then have d: "drop (nat (f - a)) (x # xs) = drop (nat (f - (a + 1))) xs" by simp
      from fa have m: "max f (a + 1) = f" "max f a = f" by simp_all
      have "paginate \<lparr>it_at = a, it_from = f, it_to = Some t\<rparr> (x # xs) =
            paginate \<lparr>it_at = a + 1, it_from = f, it_to = Some t\<rparr> xs"
        using fa False by (simp add: Done_def Next_def)
      also have "\<dots> = take (nat (t - max f (a + 1))) (drop (nat (f - (a + 1))) xs)"
        by (rule Cons.IH)
      also have "\<dots> = take (nat (t - max f a)) (drop (nat (f - a)) (x # xs))"
        by (simp only: m d)
      finally show ?thesis .
    qed
  qed
qed

lemma paginate_Range:
  "0 \<le> f \<Longrightarrow> paginate (IteratorOf (Some (f, t))) xs = take (nat (t - f)) (drop (nat f) xs)"
  by (simp add: IteratorOf_def NewIterator3_def paginate_range max_def)

lemma Out_paginates:
  assumes "error tv = None" and "GraphTraversal tv = Some t" and "Graph t = Some g"
  shows "Out X tv [] =
           Inr (NewV (Some t)
                  (paginate (IteratorOf (PaginationRange (currentStepContext t)))
                     (concat (map (\<lambda>n. LookupChildren X g n [] []) (nodes tv)))))"
  using assms
  by (simp add: Out_def SliceToMetadata_def iteratorOf_def traversalOf_def loopOnGraph_def
      graphOf_def nodeloop_countAndAppend)

lemma In_ignores_range:
  assumes "error tv = None" and "GraphTraversal tv = Some t" and "Graph t = Some g"
  shows "In X tv [] =
           Inr (NewV (Some t)
                  (if Done (IteratorOf (PaginationRange (currentStepContext t))) then []
                   else concat (map (\<lambda>n. LookupParents X g n [] []) (nodes tv))))"
  using assms
  by (simp add: In_def SliceToMetadata_def iteratorOf_def traversalOf_def loopOnGraph_def
      graphOf_def nodeloop_appendUnlessDone)

lemma OutE_ignores_range:
  assumes "error tv = None" and "GraphTraversal tv = Some t" and "Graph t = Some g"
  shows "OutE X tv [] =
           Inr (NewE (Some t)
                  (if Done (IteratorOf (PaginationRange (currentStepContext t))) then []
                   else concat (map (\<lambda>n. filter (\<lambda>e. parent e = ID n) (GetNodeEdges X g n []))
                                  (nodes tv))))"
  using assms
  by (simp add: OutE_def SliceToMetadata_def iteratorOf_def traversalOf_def loopOnGraph_def
      graphOf_def nodeloop_appendUnlessDone)

text \<open>
  C8. The claim: \<^verbatim>\<open>In\<close> and \<^verbatim>\<open>OutE\<close> count every element they admit, like \<^verbatim>\<open>Out\<close>
  and \<^verbatim>\<open>Has\<close>. Their loop bodies test \<^verbatim>\<open>it.Done()\<close> and never call \<^verbatim>\<open>it.Next()\<close>:
  under the range \<open>[0, 1)\<close>, \<^verbatim>\<open>In\<close> returns both parents of V and \<^verbatim>\<open>OutE\<close> both edges
  that leave the host, where \<^verbatim>\<open>Out\<close> and \<^verbatim>\<open>InE\<close> return one element.
\<close>

theorem In_OutE_ignore_range:
  "In externals1 (NewV (Some paged) [vethNode]) [] =
     Inr (NewV (Some paged) [hostNode, bridgeNode]) \<and>
   OutE externals1 (NewV (Some paged) [hostNode]) [] =
     Inr (NewE (Some paged) [owns ''e1'' ''host-1'' ''BR'', owns ''e2'' ''host-1'' ''V'']) \<and>
   Out externals1 (NewV (Some paged) [hostNode]) [] = Inr (NewV (Some paged) [bridgeNode]) \<and>
   InE externals1 (NewV (Some paged) [vethNode]) [] =
     Inr (NewE (Some paged) [owns ''e2'' ''host-1'' ''V''])"
  by code_simp

subsection \<open>Dedup\<close>

lemma unbounded_Done: "unbounded it \<Longrightarrow> \<not> Done it"
  by (simp add: unbounded_def Done_def)

lemma unbounded_Next: "unbounded it \<Longrightarrow> fst (Next it) \<and> unbounded (snd (Next it))"
  by (simp add: unbounded_def Next_def)

lemma unbounded_NewIterator0: "unbounded NewIterator0"
  by (simp add: unbounded_def NewIterator0_def)

text \<open>Run again on its own output, from the same \<^verbatim>\<open>visited\<close> mapping, the loop keeps
  every node: a node was kept because its key was not among the keys of the nodes kept
  before it.\<close>

lemma V_Dedup_loop_idem:
  "unbounded it \<Longrightarrow> unbounded it' \<Longrightarrow>
   V_Dedup_loop X keys (V_Dedup_loop X keys ns it visited) it' visited =
   V_Dedup_loop X keys ns it visited"
proof (induction ns arbitrary: it it' visited)
  case Nil
  then show ?case by simp
next
  case (Cons n ns)
  obtain a it1 where n1: "Next it = (a, it1)" by (cases "Next it")
  obtain b it2 where n2: "Next it' = (b, it2)" by (cases "Next it'")
  from unbounded_Next [OF Cons.prems(1)] n1 have a: "a" "unbounded it1" by simp_all
  from unbounded_Next [OF Cons.prems(2)] n2 have b: "b" "unbounded it2" by simp_all
  note d = unbounded_Done [OF Cons.prems(1)] unbounded_Done [OF Cons.prems(2)]
  note ih = Cons.IH
  show ?case
    using d a b n1 n2 ih [OF Cons.prems] ih [OF a(2) b(2)]
    by (auto simp: Let_def split: option.splits prod.splits)
qed

lemma E_Dedup_loop_idem:
  "E_Dedup_loop key es visited = Inr r \<Longrightarrow> E_Dedup_loop key r visited = Inr r"
proof (induction es arbitrary: visited r)
  case Nil
  then show ?case by simp
next
  case (Cons e es)
  then show ?case
    by (auto simp: Let_def split: if_splits sum.splits)
qed

text \<open>
  C9. For every node step with no pagination range set, whatever its nodes and the
  arguments, \<^verbatim>\<open>Dedup\<close> applied to the result of \<^verbatim>\<open>Dedup\<close> gives the result of the first
  \<^verbatim>\<open>Dedup\<close> (the same step, hence the same output sequence, or the same panic); and
  the same for every edge step.
\<close>

theorem Dedup_idempotent:
  "(noPaginationRange tv \<longrightarrow>
      andThen (V_Dedup X tv s) (\<lambda>tv'. V_Dedup X tv' s) = V_Dedup X tv s) \<and>
   andThen (E_Dedup te s) (\<lambda>te'. E_Dedup te' s) = E_Dedup te s"
proof
  show "noPaginationRange tv \<longrightarrow>
      andThen (V_Dedup X tv s) (\<lambda>tv'. V_Dedup X tv' s) = V_Dedup X tv s"
  proof
    assume np: "noPaginationRange tv"
    show "andThen (V_Dedup X tv s) (\<lambda>tv'. V_Dedup X tv' s) = V_Dedup X tv s"
    proof (cases "error tv \<noteq> None")
      case True
      then show ?thesis by (simp add: andThen_def V_Dedup_def)
    next
      case noerr: False
      show ?thesis
      proof (cases "stringKeys s")
        case None
        with noerr show ?thesis by (simp add: andThen_def V_Dedup_def V_error_def)
      next
        case (Some keys)
        show ?thesis
        proof (cases "GraphTraversal tv")
          case None
          with noerr Some show ?thesis
            by (simp add: andThen_def V_Dedup_def iteratorOf_def traversalOf_def)
        next
          case (Some t)
          with np have it: "iteratorOf tv = Inr NewIterator0"
            by (simp add: noPaginationRange_def iteratorOf_def traversalOf_def IteratorOf_def)
          have it': "iteratorOf (NewV (GraphTraversal tv) ns) = Inr NewIterator0" for ns
            using Some np
            by (simp add: noPaginationRange_def iteratorOf_def traversalOf_def IteratorOf_def NewV_def)
          show ?thesis
            using noerr \<open>stringKeys s = Some keys\<close> it it'
              V_Dedup_loop_idem [OF unbounded_NewIterator0 unbounded_NewIterator0]
            by (simp add: andThen_def V_Dedup_def NewV_def)
        qed
      qed
    qed
  qed
next
  show "andThen (E_Dedup te s) (\<lambda>te'. E_Dedup te' s) = E_Dedup te s"
  proof (cases "error te \<noteq> None")
    case True
    then show ?thesis by (simp add: andThen_def E_Dedup_def)
  next
    case noerr: False
    show ?thesis
    proof (cases "case s of [] \<Rightarrow> Some [] | PString k # _ \<Rightarrow> Some k | _ \<Rightarrow> None")
      case None
      with noerr show ?thesis by (simp add: andThen_def E_Dedup_def E_error_def)
    next
      case (Some key)
      show ?thesis
      proof (cases "E_Dedup_loop key (edges te) []")
        case (Inl p)
        with noerr Some show ?thesis by (simp add: andThen_def E_Dedup_def)
      next
        case (Inr r)
        with noerr Some E_Dedup_loop_idem [OF Inr] show ?thesis
          by (simp add: andThen_def E_Dedup_def NewE_def)
      qed
    qed
  qed
qed

text \<open>The host, the bridge and the host again, deduplicated by identifier and by the
  key \<open>Type\<close>.\<close>

theorem Dedup_idempotent_witness:
  "noPaginationRange (NewV (Some (NewGraphTraversal graph2)) [hostNode, bridgeNode, hostNode]) \<and>
   V_Dedup externals1 (NewV (Some (NewGraphTraversal graph2)) [hostNode, bridgeNode, hostNode]) [] =
     Inr (NewV (Some (NewGraphTraversal graph2)) [hostNode, bridgeNode]) \<and>
   V_Dedup externals1 (NewV (Some (NewGraphTraversal graph2)) [hostNode, bridgeNode]) [] =
     Inr (NewV (Some (NewGraphTraversal graph2)) [hostNode, bridgeNode])"
proof -
  let ?tv = "NewV (Some (NewGraphTraversal graph2)) [hostNode, bridgeNode, hostNode]"
  let ?r = "NewV (Some (NewGraphTraversal graph2)) [hostNode, bridgeNode]"
  have h1: "noPaginationRange ?tv"
    by (simp add: noPaginationRange_def NewV_def NewGraphTraversal_def)
  have h2: "V_Dedup externals1 ?tv [] = Inr ?r" by code_simp
  from Dedup_idempotent [where tv = ?tv and X = externals1 and s = "[]"] h1
  have "andThen (V_Dedup externals1 ?tv []) (\<lambda>tv'. V_Dedup externals1 tv' []) =
        V_Dedup externals1 ?tv []" by blast
  then have "V_Dedup externals1 ?r [] = Inr ?r" by (simp add: h2 andThen_def)
  with h1 h2 show ?thesis by blast
qed

subsection \<open>The regular expression matcher\<close>

text \<open>
  C10. For every string, \<^verbatim>\<open>Regex\<close> returns a matcher that holds the string as its
  pattern; it has no error result, and the filter made of the matcher is made without an
  error too. When \<^verbatim>\<open>regexp.Compile\<close> fails, the matcher holds the nil pattern and the
  string; when it succeeds, the compiled pattern and the string.
\<close>

theorem Regex_never_fails:
  "pattern (Regex X expr) = expr \<and>
   ParamToFilter X k (PRegex (Regex X expr)) = Inr (RegexFilter k expr) \<and>
   (\<forall>err. Compile X expr = Inl err \<longrightarrow> Regex X expr = \<lparr>regexp = None, pattern = expr\<rparr>) \<and>
   (\<forall>re. Compile X expr = Inr re \<longrightarrow> Regex X expr = \<lparr>regexp = Some re, pattern = expr\<rparr>)"
  by (simp add: Regex_def ParamToFilter_def Let_def)

theorem Regex_never_fails_witness:
  "Compile externals1 ''('' = Inl (ErrorNew ''missing closing )'') \<and>
   Regex externals1 ''('' = \<lparr>regexp = None, pattern = ''(''\<rparr> \<and>
   ParamToFilter externals1 ''Name'' (PRegex (Regex externals1 ''('')) =
     Inr (RegexFilter ''Name'' ''('')"
proof -
  have h: "Compile externals1 ''('' = Inl (ErrorNew ''missing closing )'')"
    by (simp add: externals1_def)
  from Regex_never_fails [of externals1 "''(''" "''Name''"] h show ?thesis by blast
qed

section \<open>Properties of the TID mapper\<close>

lemma map_of_map_store: "map_of (map_store k v m) k' = (if k' = k then Some v else map_of m k')"
  by (induction m) auto

lemma nodeAt_AddMetadata:
  "nodeAt (AddMetadata g c k v) n =
     (if c = n then map_option (\<lambda>x. x\<lparr>metadata := map_store k v (metadata x)\<rparr>) (nodeAt g n)
      else nodeAt g n)"
proof -
  have "find (\<lambda>x. ID x = n)
          (map (\<lambda>x. if ID x = c then x\<lparr>metadata := map_store k v (metadata x)\<rparr> else x) ns) =
        (if c = n then map_option (\<lambda>x. x\<lparr>metadata := map_store k v (metadata x)\<rparr>)
                         (find (\<lambda>x. ID x = n) ns)
         else find (\<lambda>x. ID x = n) ns)" for ns :: "Node list"
    by (induction ns) auto
  then show ?thesis by (simp add: nodeAt_def AddMetadata_def)
qed

lemma TID_of_AddMetadata_other:
  "c \<noteq> n \<Longrightarrow> TID_of (AddMetadata g c k v) n = TID_of g n"
  by (simp add: TID_of_def nodeAt_AddMetadata)

lemma TID_of_AddMetadata_same:
  "nodeAt g n = Some node \<Longrightarrow> TID_of (AddMetadata g n ''TID'' (VString s)) n = Some s"
  by (simp add: TID_of_def nodeAt_AddMetadata GetFieldString_def GetField_def map_of_map_store)

lemma TID_of_setTID_other:
  "c \<noteq> n \<Longrightarrow> TID_of (GraphOf (setTID X t p c)) n = TID_of (GraphOf t) n"
  by (simp add: setTID_def Let_def TID_of_AddMetadata_other split: option.splits)

lemma TID_of_fold_setTID:
  "n \<notin> ID ` set cs \<Longrightarrow>
   TID_of (GraphOf (fold (\<lambda>c t'. setTID X t' p (ID c)) cs t)) n = TID_of (GraphOf t) n"
  by (induction cs arbitrary: t) (auto simp: TID_of_setTID_other)

lemma hostID_setTID: "hostID (setTID X t p c) = hostID t"
  by (simp add: setTID_def Let_def split: option.splits)

lemma hostID_setChildrenTID: "hostID (setChildrenTID X t p) = hostID t"
proof -
  have "hostID (fold (\<lambda>c t'. setTID X t' p (ID c)) cs t) = hostID t" for cs :: "Node list"
    by (induction cs arbitrary: t) (auto simp: hostID_setTID)
  then show ?thesis by (simp add: setChildrenTID_def split: option.splits)
qed

text \<open>
  C5. When the mapper processes the event of a node of the graph that has no TID, whose
  \<open>Type\<close> is \<open>netns\<close> and whose \<open>Path\<close> is a non-empty string, it writes to the node the
  TID \<open>netnsTID X (hostID t) path\<close>, the UUIDv5 in the OID namespace of the host
  identifier followed by the path and by "netns", and then goes on to the ownership
  children of the node; the host identifier of the mapper is unchanged. The TID is a
  function of the host identifier and the path only, so two runs with the same two values
  write the same TID. When the node is not among its own ownership children (the
  ownership relation is a DAG), this is the TID the node has when the mapper is done.
\<close>

theorem netns_TID:
  assumes "nodeAt (GraphOf t) n = Some node"
    and "GetFieldString node ''TID'' = Inl err"
    and "GetFieldString node ''Type'' = Inr ''netns''"
    and "GetFieldString node ''Path'' = Inr path" and "path \<noteq> []"
  shows "TID_onNodeEvent X t n =
           setChildrenTID X
             (t\<lparr>GraphOf := AddMetadata (GraphOf t) n ''TID''
                             (VString (netnsTID X (hostID t) path))\<rparr>) n \<and>
         TID_of (AddMetadata (GraphOf t) n ''TID'' (VString (netnsTID X (hostID t) path))) n =
           Some (netnsTID X (hostID t) path) \<and>
         hostID (TID_onNodeEvent X t n) = hostID t \<and>
         (n \<notin> ID ` set (LookupChildren X
                          (AddMetadata (GraphOf t) n ''TID'' (VString (netnsTID X (hostID t) path)))
                          (node\<lparr>metadata := map_store ''TID''
                                   (VString (netnsTID X (hostID t) path)) (metadata node)\<rparr>)
                          [] ownership) \<longrightarrow>
          TID_of (GraphOf (TID_onNodeEvent X t n)) n = Some (netnsTID X (hostID t) path))"
proof -
  let ?tid = "netnsTID X (hostID t) path"
  let ?g1 = "AddMetadata (GraphOf t) n ''TID'' (VString ?tid)"
  let ?t1 = "t\<lparr>GraphOf := ?g1\<rparr>"
  have step: "TID_onNodeEvent X t n = setChildrenTID X ?t1 n"
    using assms by (simp add: TID_onNodeEvent_def GetFieldString0_def netnsTID_def Let_def)
  have assigned: "TID_of ?g1 n = Some ?tid"
    using assms(1) by (rule TID_of_AddMetadata_same)
  have hid: "hostID (TID_onNodeEvent X t n) = hostID t"
    by (simp add: step hostID_setChildrenTID)
  have final: "TID_of (GraphOf (TID_onNodeEvent X t n)) n = Some ?tid"
    if "n \<notin> ID ` set (LookupChildren X ?g1
          (node\<lparr>metadata := map_store ''TID'' (VString ?tid) (metadata node)\<rparr>) [] ownership)"
    using that assms(1) assigned
    by (simp add: step setChildrenTID_def nodeAt_AddMetadata TID_of_fold_setTID)
  show ?thesis using step assigned hid final by blast
qed


theorem netns_TID_witness:
  "nodeAt (GraphOf mapper1) ''N'' = Some netnsNode \<and>
   GetFieldString netnsNode ''TID'' = Inl (ErrorNew ''Field not found'') \<and>
   GetFieldString netnsNode ''Type'' = Inr ''netns'' \<and>
   GetFieldString netnsNode ''Path'' = Inr ''/var/run/netns/x'' \<and>
   TID_of (GraphOf (TID_onNodeEvent externals1 mapper1 ''N'')) ''N'' =
     Some (netnsTID externals1 ''host-1'' ''/var/run/netns/x'')"
proof -
  have h1: "nodeAt (GraphOf mapper1) ''N'' = Some netnsNode" by code_simp
  have h2: "GetFieldString netnsNode ''TID'' = Inl (ErrorNew ''Field not found'')" by code_simp
  have h3: "GetFieldString netnsNode ''Type'' = Inr ''netns''" by code_simp
  have h4: "GetFieldString netnsNode ''Path'' = Inr ''/var/run/netns/x''" by code_simp
  have h5: "''/var/run/netns/x'' \<noteq> []" by simp
  have h6: "''N'' \<notin> ID ` set (LookupChildren externals1
              (AddMetadata (GraphOf mapper1) ''N'' ''TID''
                 (VString (netnsTID externals1 (hostID mapper1) ''/var/run/netns/x'')))
              (netnsNode\<lparr>metadata := map_store ''TID''
                 (VString (netnsTID externals1 (hostID mapper1) ''/var/run/netns/x''))
                 (metadata netnsNode)\<rparr>) [] ownership)"
    by code_simp
  have h7: "hostID mapper1 = ''host-1''" by (simp add: mapper1_def)
  from netns_TID [OF h1 h2 h3 h4 h5, of externals1] h6
  have "TID_of (GraphOf (TID_onNodeEvent externals1 mapper1 ''N'')) ''N'' =
     Some (netnsTID externals1 (hostID mapper1) ''/var/run/netns/x'')" by blast
  then have "TID_of (GraphOf (TID_onNodeEvent externals1 mapper1 ''N'')) ''N'' =
     Some (netnsTID externals1 ''host-1'' ''/var/run/netns/x'')" by (simp only: h7)
  with h1 h2 h3 h4 show ?thesis by blast
qed

text \<open>
  C6, the claim as stated fails. The veth V has two ownership parents, the host and the
  bridge, both with a TID; \<^verbatim>\<open>setTID\<close> with the first parent would give V a TID, and the
  mapper, on the event of V, gives it none.
\<close>

theorem two_parents_counterexample:
  "LookupParents externals1 graph2 vethNode [] ownership = [hostNode, bridgeNode] \<and>
   TID_of (GraphOf (setTID externals1 mapper2 (ID hostNode) ''V'')) ''V'' =
     Some (NewV5 externals1 NamespaceOID ''host-1eth0veth'') \<and>
   TID_of (GraphOf (TID_onNodeEvent externals1 mapper2 ''V'')) ''V'' = None"
  by code_simp

text \<open>
  C6, amended. When the mapper processes a node without TID that is neither host, netns
  nor ovsport, whose \<open>Probe\<close> is not \<open>fabric\<close>, and that has more than one ownership
  parent, it logs the violation and does nothing else: the graph is unchanged and the node
  still has no TID.
\<close>

theorem two_parents_no_TID:
  assumes "nodeAt (GraphOf t) n = Some node"
    and "GetFieldString node ''TID'' = Inl err"
    and "GetFieldString node ''Type'' = Inr tp"
    and "tp \<noteq> ''host''" and "tp \<noteq> ''netns''" and "tp \<noteq> ''ovsport''"
    and "GetFieldString0 node ''Probe'' \<noteq> ''fabric''"
    and "length (LookupParents X (GraphOf t) node [] ownership) > 1"
  shows "TID_onNodeEvent X t n =
           t\<lparr>tlog := tlog t @
                [LogErrorf ''A should always only have one ownership parent: %v'' [n]]\<rparr> \<and>
         GraphOf (TID_onNodeEvent X t n) = GraphOf t \<and>
         TID_of (GraphOf (TID_onNodeEvent X t n)) n = None"
proof -
  have a: "TID_onNodeEvent X t n =
           t\<lparr>tlog := tlog t @
                [LogErrorf ''A should always only have one ownership parent: %v'' [n]]\<rparr>"
    using assms by (simp add: TID_onNodeEvent_def Let_def)
  have b: "TID_of (GraphOf t) n = None"
    using assms(1,2) by (simp add: TID_of_def)
  show ?thesis using a b by simp
qed

theorem two_parents_no_TID_witness:
  "length (LookupParents externals1 (GraphOf mapper2) vethNode [] ownership) = 2 \<and>
   tlog (TID_onNodeEvent externals1 mapper2 ''V'') =
     [LogErrorf ''A should always only have one ownership parent: %v'' [''V'']] \<and>
   GraphOf (TID_onNodeEvent externals1 mapper2 ''V'') = graph2"
proof -
  have h1: "nodeAt (GraphOf mapper2) ''V'' = Some vethNode" by code_simp
  have h2: "GetFieldString vethNode ''TID'' = Inl (ErrorNew ''Field not found'')" by code_simp
  have h3: "GetFieldString vethNode ''Type'' = Inr ''veth''" by code_simp
  have h4: "''veth'' \<noteq> ''host''" "''veth'' \<noteq> ''netns''" "''veth'' \<noteq> ''ovsport''" by simp_all
  have h5: "GetFieldString0 vethNode ''Probe'' \<noteq> ''fabric''" by code_simp
  have h6: "length (LookupParents externals1 (GraphOf mapper2) vethNode [] ownership) = 2"
    by code_simp
  then have h7: "length (LookupParents externals1 (GraphOf mapper2) vethNode [] ownership) > 1"
    by simp
  from two_parents_no_TID [OF h1 h2 h3 h4 h5 h7] h6
  show ?thesis by (simp add: mapper2_def)
qed

end
